theory Spec2Isabelle
  imports Main
begin

section \<open>Signal sources\<close>

text \<open>
  The four observed objects. Each one is a validity flag plus a value, as the structs of
  libmce-glib and of the connman watcher expose them. The plugin only reads them; their
  owners overwrite them and then fire the registered handler.
\<close>

datatype MCE_DISPLAY_STATE =
  MCE_DISPLAY_STATE_OFF | MCE_DISPLAY_STATE_DIM | MCE_DISPLAY_STATE_ON

datatype MCE_CHARGER_STATE =
  MCE_CHARGER_UNKNOWN | MCE_CHARGER_ON | MCE_CHARGER_OFF

text \<open>
  The battery status is compared with \<open>>=\<close>, so it stays the integer of the C enum
  (\<open>mce_battery.h\<close>: UNKNOWN, EMPTY, LOW, OK, FULL in this order).
\<close>

definition MCE_BATTERY_UNKNOWN :: int where "MCE_BATTERY_UNKNOWN = 0"
definition MCE_BATTERY_EMPTY :: int where "MCE_BATTERY_EMPTY = 1"
definition MCE_BATTERY_LOW :: int where "MCE_BATTERY_LOW = 2"
definition MCE_BATTERY_OK :: int where "MCE_BATTERY_OK = 3"
definition MCE_BATTERY_FULL :: int where "MCE_BATTERY_FULL = 4"

record BinderConnman =
  connman_valid :: bool
  connman_tethering :: bool

record MceBattery =
  battery_valid :: bool
  battery_status :: int

record MceCharger =
  charger_valid :: bool
  charger_state :: MCE_CHARGER_STATE

record MceDisplay =
  display_valid :: bool
  display_state :: MCE_DISPLAY_STATE

section \<open>The radio client and the slot\<close>

text \<open>
  The transport is libgbinder-radio. What the plugin relies on: \<open>radio_request_new\<close>
  makes a fresh request bound to a completion function, \<open>radio_request_submit\<close> may
  refuse it, \<open>radio_request_drop\<close> cancels a request (its completion is never called
  afterwards) and accepts NULL, and a completion is delivered only for a request that is
  in flight. Requests are identified by a number; \<open>client_fail\<close> lists the requests
  whose submission the transport refuses; \<open>client_log\<close> records, in order, every
  submit and every drop the plugin performs.
\<close>

datatype RADIO_TX_STATUS =
  RADIO_TX_STATUS_OK | RADIO_TX_STATUS_FAILED | RADIO_TX_STATUS_TIMEOUT

datatype RADIO_RESP =
  RADIO_RESP_SEND_DEVICE_STATE | RADIO_RESP_SET_INDICATION_FILTER | RADIO_RESP_OTHER int

datatype RADIO_ERROR =
  RADIO_ERROR_NONE | RADIO_ERROR_REQUEST_NOT_SUPPORTED | RADIO_ERROR_OTHER int

datatype RADIO_DEVICE_STATE =
  RADIO_DEVICE_STATE_POWER_SAVE_MODE
  | RADIO_DEVICE_STATE_CHARGING_STATE
  | RADIO_DEVICE_STATE_LOW_DATA_EXPECTED

datatype RADIO_REQ =
  RADIO_REQ_SEND_DEVICE_STATE
  | RADIO_REQ_SET_INDICATION_FILTER
  | RADIO_REQ_SET_INDICATION_FILTER_1_2
  | RADIO_REQ_SET_INDICATION_FILTER_1_5

datatype RADIO_IND_FILTER =
  RADIO_IND_FILTER_ALL
  | RADIO_IND_FILTER_ALL_1_2
  | RADIO_IND_FILTER_ALL_1_5
  | RADIO_IND_FILTER_DATA_CALL_DORMANCY

definition RADIO_INTERFACE_1_2 :: int where "RADIO_INTERFACE_1_2 = 2"
definition RADIO_INTERFACE_1_5 :: int where "RADIO_INTERFACE_1_5 = 5"

datatype radio_args =
  Device_state_args RADIO_DEVICE_STATE bool
  | Indication_filter_args RADIO_IND_FILTER

text \<open>The three completion functions a request can be bound to.\<close>

datatype completion =
  Low_data_state_sent | Charging_state_sent | Indication_filter_sent

datatype radio_action =
  Submit nat RADIO_REQ radio_args
  | Drop nat

record RadioClient =
  client_interface :: int
  client_next :: nat
  client_fail :: "nat list"
  client_pending :: "(nat \<times> completion) list"
  client_log :: "radio_action list"

definition radio_client_interface :: "RadioClient \<Rightarrow> int" where
  "radio_client_interface c = client_interface c"

definition radio_request_new :: "RadioClient \<Rightarrow> nat \<times> RadioClient" where
  "radio_request_new c = (client_next c, c\<lparr>client_next := Suc (client_next c)\<rparr>)"

definition radio_request_submit ::
  "nat \<Rightarrow> RADIO_REQ \<Rightarrow> radio_args \<Rightarrow> completion \<Rightarrow> RadioClient \<Rightarrow> bool \<times> RadioClient" where
  "radio_request_submit req code args cb c =
     (if req \<in> set (client_fail c)
      then (False, c\<lparr>client_log := client_log c @ [Submit req code args]\<rparr>)
      else (True, c\<lparr>client_pending := client_pending c @ [(req, cb)],
                     client_log := client_log c @ [Submit req code args]\<rparr>))"

definition radio_request_drop :: "nat option \<Rightarrow> RadioClient \<Rightarrow> RadioClient" where
  "radio_request_drop req c =
     (case req of
        None \<Rightarrow> c
      | Some r \<Rightarrow> c\<lparr>client_pending := filter (\<lambda>p. fst p \<noteq> r) (client_pending c),
                     client_log := client_log c @ [Drop r]\<rparr>)"

text \<open>
  The slot records every interval handed to
  \<open>ofono_slot_set_cell_info_update_interval\<close>, oldest first.
\<close>

record ofono_slot =
  slot_intervals :: "int list"

definition ofono_slot_set_cell_info_update_interval :: "ofono_slot \<Rightarrow> int \<Rightarrow> ofono_slot" where
  "ofono_slot_set_cell_info_update_interval sl ms = sl\<lparr>slot_intervals := slot_intervals sl @ [ms]\<rparr>"

section \<open>The batman fallback input\<close>

text \<open>
  \<open>batman/batman-wrappers.h\<close> is not part of the sources, so the numbers behind its
  battery-state names are a parameter of every function that compares against them.
\<close>

record batman_wrappers =
  BATMAN_UNKNOWN :: int
  BATMAN_NO_BATTERY :: int
  BATMAN_CHARGING :: int
  BATMAN_DISCHARGING :: int
  BATMAN_FULLY_CHARGED :: int

text \<open>
  What one run of an inotify handler reads from outside: the GIO condition and the result
  of reading the channel (only looked at when the channel is not NULL), the content of
  \<open>/var/lib/batman/screen\<close> (\<open>None\<close> when \<open>fopen\<close> fails) and the value
  \<open>get_battery_state\<close> returns.
\<close>

record batman_io =
  io_condition_failed :: bool
  io_read_error :: bool
  io_bytes_read :: nat
  io_screen_file :: "string option"
  io_battery_state :: int

definition G_SOURCE_REMOVE :: bool where "G_SOURCE_REMOVE = False"
definition G_SOURCE_CONTINUE :: bool where "G_SOURCE_CONTINUE = True"

text \<open>
  \<open>fgets n\<close> with a buffer of \<open>Suc n\<close> bytes: at most \<open>n\<close> characters, stopping after a
  newline; NULL (\<open>None\<close>) when nothing could be read.
\<close>

fun fgets_chars :: "nat \<Rightarrow> string \<Rightarrow> string" where
  "fgets_chars 0 cs = []"
| "fgets_chars (Suc n) [] = []"
| "fgets_chars (Suc n) (c # cs) = (if c = CHR 0x0A then [c] else c # fgets_chars n cs)"

definition fgets :: "nat \<Rightarrow> string \<Rightarrow> string option" where
  "fgets n content = (if content = [] then None else Some (fgets_chars n content))"

text \<open>
  The block both handlers share: \<open>display\<close> starts as 0 and becomes 1 when the file
  opens, a line is read into \<open>char screen_state[4]\<close> and its first three characters
  are \<open>yes\<close>.
\<close>

definition batman_read_screen :: "string option \<Rightarrow> int" where
  "batman_read_screen screen_file =
     (case screen_file of
        None \<Rightarrow> 0
      | Some content \<Rightarrow>
          (case fgets 3 content of
             None \<Rightarrow> 0
           | Some screen_state \<Rightarrow> if take 3 screen_state = ''yes'' then 1 else 0))"

record batman_init =
  init_inotify_fd :: int
  init_screen_wd :: int
  init_watch_source :: nat
  init_io :: batman_io

section \<open>binder_devmon_ds.c\<close>

record DevMon_ds =
  ds_connman :: BinderConnman
  ds_battery :: MceBattery
  ds_charger :: MceCharger
  ds_display :: MceDisplay
  ds_cell_info_interval_short_ms :: int
  ds_cell_info_interval_long_ms :: int

record DevMonIo_ds =
  connman :: BinderConnman
  slot :: ofono_slot
  battery :: MceBattery
  charger :: MceCharger
  display :: MceDisplay
  client :: RadioClient
  low_data_req :: "nat option"
  charging_req :: "nat option"
  low_data :: bool
  charging :: bool
  low_data_supported :: bool
  charging_supported :: bool
  cell_info_interval_short_ms :: int
  cell_info_interval_long_ms :: int
  batman_inotify_fd :: int
  batman_screen_wd :: int
  batman_watch_source :: nat

definition binder_devmon_ds_tethering_on :: "BinderConnman \<Rightarrow> bool" where
  "binder_devmon_ds_tethering_on c = (connman_valid c \<and> connman_tethering c)"

definition binder_devmon_ds_battery_ok :: "MceBattery \<Rightarrow> bool" where
  "binder_devmon_ds_battery_ok b = (battery_valid b \<and> battery_status b \<ge> MCE_BATTERY_OK)"

definition binder_devmon_ds_charging :: "MceCharger \<Rightarrow> bool" where
  "binder_devmon_ds_charging ch = (charger_valid ch \<and> charger_state ch = MCE_CHARGER_ON)"

definition binder_devmon_ds_display_on :: "MceDisplay \<Rightarrow> bool" where
  "binder_devmon_ds_display_on d = (display_valid d \<and> display_state d \<noteq> MCE_DISPLAY_STATE_OFF)"

text \<open>
  The completion functions. \<open>GASSERT(self->low_data_req == req)\<close> is a debugging
  check that leaves the object alone, and nothing after it reads \<open>req\<close>: the stored
  request is released and the slot cleared whatever request the function is called with.
\<close>

definition binder_devmon_ds_io_low_data_state_sent ::
  "nat \<Rightarrow> RADIO_TX_STATUS \<Rightarrow> RADIO_RESP \<Rightarrow> RADIO_ERROR \<Rightarrow> DevMonIo_ds \<Rightarrow> DevMonIo_ds" where
  "binder_devmon_ds_io_low_data_state_sent req status resp error self =
     (let self = self\<lparr>low_data_req := None\<rparr> in
      if status = RADIO_TX_STATUS_OK then
        if resp = RADIO_RESP_SEND_DEVICE_STATE then
          if error = RADIO_ERROR_REQUEST_NOT_SUPPORTED
          then self\<lparr>low_data_supported := False\<rparr>
          else self
        else self\<lparr>low_data_supported := False\<rparr>
      else self)"

definition binder_devmon_ds_io_charging_state_sent ::
  "nat \<Rightarrow> RADIO_TX_STATUS \<Rightarrow> RADIO_RESP \<Rightarrow> RADIO_ERROR \<Rightarrow> DevMonIo_ds \<Rightarrow> DevMonIo_ds" where
  "binder_devmon_ds_io_charging_state_sent req status resp error self =
     (let self = self\<lparr>charging_req := None\<rparr> in
      if status = RADIO_TX_STATUS_OK then
        if resp = RADIO_RESP_SEND_DEVICE_STATE then
          if error = RADIO_ERROR_REQUEST_NOT_SUPPORTED
          then self\<lparr>charging_supported := False\<rparr>
          else self
        else self\<lparr>charging_supported := False\<rparr>
      else self)"

definition binder_devmon_ds_io_send_device_state ::
  "DevMonIo_ds \<Rightarrow> RADIO_DEVICE_STATE \<Rightarrow> bool \<Rightarrow> completion \<Rightarrow> nat option \<times> DevMonIo_ds" where
  "binder_devmon_ds_io_send_device_state self type state cb =
     (let (req, c) = radio_request_new (client self);
          (ok, c) = radio_request_submit req RADIO_REQ_SEND_DEVICE_STATE
                      (Device_state_args type state) cb c
      in if ok then (Some req, self\<lparr>client := c\<rparr>) else (None, self\<lparr>client := c\<rparr>))"

definition binder_devmon_ds_io_update_charging :: "DevMonIo_ds \<Rightarrow> DevMonIo_ds" where
  "binder_devmon_ds_io_update_charging self =
     (let chg = binder_devmon_ds_charging (charger self) in
      if charging self \<noteq> chg then
        let self = self\<lparr>charging := chg\<rparr> in
        if charging_supported self then
          let self = self\<lparr>client := radio_request_drop (charging_req self) (client self)\<rparr>;
              (req, self) = binder_devmon_ds_io_send_device_state self
                              RADIO_DEVICE_STATE_CHARGING_STATE chg Charging_state_sent
          in self\<lparr>charging_req := req\<rparr>
        else self
      else self)"

definition binder_devmon_ds_io_update_low_data :: "DevMonIo_ds \<Rightarrow> DevMonIo_ds" where
  "binder_devmon_ds_io_update_low_data self =
     (let low = (\<not> binder_devmon_ds_tethering_on (connman self) \<and>
                 \<not> binder_devmon_ds_charging (charger self) \<and>
                 \<not> binder_devmon_ds_display_on (display self)) in
      if low_data self \<noteq> low then
        let self = self\<lparr>low_data := low\<rparr> in
        if low_data_supported self then
          let self = self\<lparr>client := radio_request_drop (low_data_req self) (client self)\<rparr>;
              (req, self) = binder_devmon_ds_io_send_device_state self
                              RADIO_DEVICE_STATE_LOW_DATA_EXPECTED low Low_data_state_sent
          in self\<lparr>low_data_req := req\<rparr>
        else self
      else self)"

definition binder_devmon_ds_io_set_cell_info_update_interval :: "DevMonIo_ds \<Rightarrow> DevMonIo_ds" where
  "binder_devmon_ds_io_set_cell_info_update_interval self =
     self\<lparr>slot := ofono_slot_set_cell_info_update_interval (slot self)
        (if binder_devmon_ds_display_on (display self) \<and>
            (binder_devmon_ds_charging (charger self) \<or>
             binder_devmon_ds_battery_ok (battery self))
         then cell_info_interval_short_ms self
         else cell_info_interval_long_ms self)\<rparr>"

definition binder_devmon_ds_io_connman_cb :: "DevMonIo_ds \<Rightarrow> DevMonIo_ds" where
  "binder_devmon_ds_io_connman_cb self = binder_devmon_ds_io_update_low_data self"

definition binder_devmon_ds_io_battery_cb :: "DevMonIo_ds \<Rightarrow> DevMonIo_ds" where
  "binder_devmon_ds_io_battery_cb self = binder_devmon_ds_io_set_cell_info_update_interval self"

definition binder_devmon_ds_io_display_cb :: "DevMonIo_ds \<Rightarrow> DevMonIo_ds" where
  "binder_devmon_ds_io_display_cb self =
     binder_devmon_ds_io_set_cell_info_update_interval
       (binder_devmon_ds_io_update_low_data self)"

definition binder_devmon_ds_io_charger_cb :: "DevMonIo_ds \<Rightarrow> DevMonIo_ds" where
  "binder_devmon_ds_io_charger_cb self =
     binder_devmon_ds_io_set_cell_info_update_interval
       (binder_devmon_ds_io_update_charging
          (binder_devmon_ds_io_update_low_data self))"

text \<open>
  The inotify handler. \<open>channel\<close> is false for the direct call with a NULL channel. The
  result pairs the returned \<open>gboolean\<close> with the updated object.
\<close>

definition handle_batman_inotify_events_ds ::
  "batman_wrappers \<Rightarrow> bool \<Rightarrow> batman_io \<Rightarrow> DevMonIo_ds \<Rightarrow> bool \<times> DevMonIo_ds" where
  "handle_batman_inotify_events_ds bw channel io self =
     (if channel \<and> io_condition_failed io then
        (G_SOURCE_REMOVE, self\<lparr>batman_watch_source := 0\<rparr>)
      else if channel \<and> io_read_error io then
        (G_SOURCE_REMOVE, self\<lparr>batman_watch_source := 0\<rparr>)
      else if channel \<and> io_bytes_read io = 0 then
        (G_SOURCE_CONTINUE, self)
      else
        let disp = batman_read_screen (io_screen_file io);
            state = io_battery_state io;
            low = (disp = 0 \<and> state = BATMAN_DISCHARGING bw);
            self =
              (if low_data self \<noteq> low then
                 let self = self\<lparr>low_data := low\<rparr> in
                 if low_data_supported self then
                   let self = self\<lparr>client := radio_request_drop (low_data_req self) (client self)\<rparr>;
                       (req, self) = binder_devmon_ds_io_send_device_state self
                                       RADIO_DEVICE_STATE_LOW_DATA_EXPECTED low Low_data_state_sent
                   in self\<lparr>low_data_req := req\<rparr>
                 else self
               else self);
            chg = (state = BATMAN_CHARGING bw \<or> state = BATMAN_FULLY_CHARGED bw);
            self =
              (if charging self \<noteq> chg then
                 let self = self\<lparr>charging := chg\<rparr> in
                 if charging_supported self then
                   let self = self\<lparr>client := radio_request_drop (charging_req self) (client self)\<rparr>;
                       (req, self) = binder_devmon_ds_io_send_device_state self
                                       RADIO_DEVICE_STATE_CHARGING_STATE chg Charging_state_sent
                   in self\<lparr>charging_req := req\<rparr>
                 else self
               else self);
            cell_info_interval =
              (if disp \<noteq> 0 \<or> chg then cell_info_interval_short_ms self
               else cell_info_interval_long_ms self)
        in (G_SOURCE_CONTINUE,
            self\<lparr>slot := ofono_slot_set_cell_info_update_interval (slot self) cell_info_interval\<rparr>))"

definition binder_devmon_ds_io_init_batman_watch ::
  "batman_wrappers \<Rightarrow> batman_init \<Rightarrow> DevMonIo_ds \<Rightarrow> DevMonIo_ds" where
  "binder_devmon_ds_io_init_batman_watch bw ini self =
     (let self = self\<lparr>batman_inotify_fd := init_inotify_fd ini\<rparr> in
      if batman_inotify_fd self < 0 then self
      else
        let self = self\<lparr>batman_screen_wd := init_screen_wd ini\<rparr> in
        if batman_screen_wd self < 0 then self\<lparr>batman_inotify_fd := - 1\<rparr>
        else
          let self = self\<lparr>batman_watch_source := init_watch_source ini\<rparr>
          in snd (handle_batman_inotify_events_ds bw False (init_io ini) self))"

text \<open>\<open>g_new0\<close> zeroes the object; the two flags are then set to TRUE.\<close>

definition binder_devmon_ds_start_io ::
  "batman_wrappers \<Rightarrow> DevMon_ds \<Rightarrow> RadioClient \<Rightarrow> ofono_slot \<Rightarrow> batman_init \<Rightarrow> DevMonIo_ds" where
  "binder_devmon_ds_start_io bw ds cl sl ini =
     (let self = \<lparr>connman = ds_connman ds, slot = sl, battery = ds_battery ds,
                   charger = ds_charger ds, display = ds_display ds, client = cl,
                   low_data_req = None, charging_req = None,
                   low_data = False, charging = False,
                   low_data_supported = True, charging_supported = True,
                   cell_info_interval_short_ms = ds_cell_info_interval_short_ms ds,
                   cell_info_interval_long_ms = ds_cell_info_interval_long_ms ds,
                   batman_inotify_fd = 0, batman_screen_wd = 0, batman_watch_source = 0\<rparr>;
          self = binder_devmon_ds_io_update_low_data self;
          self = binder_devmon_ds_io_update_charging self;
          self = binder_devmon_ds_io_set_cell_info_update_interval self
      in binder_devmon_ds_io_init_batman_watch bw ini self)"

section \<open>binder_devmon_if.c\<close>

record DevMon_if =
  if_dm_battery :: MceBattery
  if_dm_charger :: MceCharger
  if_dm_display :: MceDisplay
  if_dm_cell_info_interval_short_ms :: int
  if_dm_cell_info_interval_long_ms :: int

text \<open>The fields of the second \<open>DevMonIo\<close>, prefixed to keep the two structs apart.\<close>

record DevMonIo_if =
  if_slot :: ofono_slot
  if_battery :: MceBattery
  if_charger :: MceCharger
  if_display :: MceDisplay
  if_client :: RadioClient
  if_req :: "nat option"
  if_display_on :: bool
  if_ind_filter_supported :: bool
  if_cell_info_interval_short_ms :: int
  if_cell_info_interval_long_ms :: int
  if_batman_inotify_fd :: int
  if_batman_screen_wd :: int
  if_batman_watch_source :: nat

definition binder_devmon_if_battery_ok :: "MceBattery \<Rightarrow> bool" where
  "binder_devmon_if_battery_ok b = (battery_valid b \<and> battery_status b \<ge> MCE_BATTERY_OK)"

definition binder_devmon_if_charging :: "MceCharger \<Rightarrow> bool" where
  "binder_devmon_if_charging ch = (charger_valid ch \<and> charger_state ch = MCE_CHARGER_ON)"

definition binder_devmon_if_display_on :: "MceDisplay \<Rightarrow> bool" where
  "binder_devmon_if_display_on d = (display_valid d \<and> display_state d \<noteq> MCE_DISPLAY_STATE_OFF)"

definition binder_devmon_if_io_indication_filter_sent ::
  "nat \<Rightarrow> RADIO_TX_STATUS \<Rightarrow> RADIO_RESP \<Rightarrow> RADIO_ERROR \<Rightarrow> DevMonIo_if \<Rightarrow> DevMonIo_if" where
  "binder_devmon_if_io_indication_filter_sent req status resp error self =
     (let self = self\<lparr>if_req := None\<rparr> in
      if status = RADIO_TX_STATUS_OK then
        if resp = RADIO_RESP_SET_INDICATION_FILTER then
          if error = RADIO_ERROR_REQUEST_NOT_SUPPORTED
          then self\<lparr>if_ind_filter_supported := False\<rparr>
          else self
        else self
      else self)"

text \<open>The result of \<open>radio_request_submit\<close> is not looked at here: the request stays stored.\<close>

definition binder_devmon_if_io_set_indication_filter :: "DevMonIo_if \<Rightarrow> DevMonIo_if" where
  "binder_devmon_if_io_set_indication_filter self =
     (if if_ind_filter_supported self then
        let (code, val) =
              (if radio_client_interface (if_client self) < RADIO_INTERFACE_1_2 then
                 (RADIO_REQ_SET_INDICATION_FILTER,
                  if if_display_on self then RADIO_IND_FILTER_ALL
                  else RADIO_IND_FILTER_DATA_CALL_DORMANCY)
               else if radio_client_interface (if_client self) < RADIO_INTERFACE_1_5 then
                 (RADIO_REQ_SET_INDICATION_FILTER_1_2,
                  if if_display_on self then RADIO_IND_FILTER_ALL_1_2
                  else RADIO_IND_FILTER_DATA_CALL_DORMANCY)
               else
                 (RADIO_REQ_SET_INDICATION_FILTER_1_5,
                  if if_display_on self then RADIO_IND_FILTER_ALL_1_5
                  else RADIO_IND_FILTER_DATA_CALL_DORMANCY));
            c = radio_request_drop (if_req self) (if_client self);
            (r, c) = radio_request_new c;
            (ok, c) = radio_request_submit r code (Indication_filter_args val)
                        Indication_filter_sent c
        in self\<lparr>if_client := c, if_req := Some r\<rparr>
      else self)"

definition binder_devmon_if_io_set_cell_info_update_interval :: "DevMonIo_if \<Rightarrow> DevMonIo_if" where
  "binder_devmon_if_io_set_cell_info_update_interval self =
     self\<lparr>if_slot := ofono_slot_set_cell_info_update_interval (if_slot self)
        (if if_display_on self \<and>
            (binder_devmon_if_charging (if_charger self) \<or>
             binder_devmon_if_battery_ok (if_battery self))
         then if_cell_info_interval_short_ms self
         else if_cell_info_interval_long_ms self)\<rparr>"

definition binder_devmon_if_io_battery_cb :: "DevMonIo_if \<Rightarrow> DevMonIo_if" where
  "binder_devmon_if_io_battery_cb self = binder_devmon_if_io_set_cell_info_update_interval self"

definition binder_devmon_if_io_charger_cb :: "DevMonIo_if \<Rightarrow> DevMonIo_if" where
  "binder_devmon_if_io_charger_cb self = binder_devmon_if_io_set_cell_info_update_interval self"

definition binder_devmon_if_io_display_cb :: "DevMonIo_if \<Rightarrow> DevMonIo_if" where
  "binder_devmon_if_io_display_cb self =
     (let disp_on = binder_devmon_if_display_on (if_display self) in
      if if_display_on self \<noteq> disp_on then
        binder_devmon_if_io_set_cell_info_update_interval
          (binder_devmon_if_io_set_indication_filter (self\<lparr>if_display_on := disp_on\<rparr>))
      else self)"

text \<open>
  In this handler the value of \<open>get_battery_state\<close> goes to \<open>state\<close> and is only
  logged; \<open>charging\<close> is computed from \<open>battery_state\<close>, which keeps its initial -1.
\<close>

definition handle_batman_inotify_events_if ::
  "batman_wrappers \<Rightarrow> bool \<Rightarrow> batman_io \<Rightarrow> DevMonIo_if \<Rightarrow> bool \<times> DevMonIo_if" where
  "handle_batman_inotify_events_if bw channel io self =
     (if channel \<and> io_condition_failed io then
        (G_SOURCE_REMOVE, self\<lparr>if_batman_watch_source := 0\<rparr>)
      else if channel \<and> io_read_error io then
        (G_SOURCE_REMOVE, self\<lparr>if_batman_watch_source := 0\<rparr>)
      else if channel \<and> io_bytes_read io = 0 then
        (G_SOURCE_CONTINUE, self)
      else
        let battery_state = (- 1 :: int);
            disp = batman_read_screen (io_screen_file io);
            state = io_battery_state io;
            chg = (battery_state = BATMAN_CHARGING bw \<or>
                   battery_state = BATMAN_FULLY_CHARGED bw);
            cell_info_interval =
              (if disp \<noteq> 0 \<or> chg then if_cell_info_interval_short_ms self
               else if_cell_info_interval_long_ms self)
        in (G_SOURCE_CONTINUE,
            self\<lparr>if_slot :=
              ofono_slot_set_cell_info_update_interval (if_slot self) cell_info_interval\<rparr>))"

definition binder_devmon_if_io_init_batman_watch ::
  "batman_wrappers \<Rightarrow> batman_init \<Rightarrow> DevMonIo_if \<Rightarrow> DevMonIo_if" where
  "binder_devmon_if_io_init_batman_watch bw ini self =
     (let self = self\<lparr>if_batman_inotify_fd := init_inotify_fd ini\<rparr> in
      if if_batman_inotify_fd self < 0 then self
      else
        let self = self\<lparr>if_batman_screen_wd := init_screen_wd ini\<rparr> in
        if if_batman_screen_wd self < 0 then self\<lparr>if_batman_inotify_fd := - 1\<rparr>
        else
          let self = self\<lparr>if_batman_watch_source := init_watch_source ini\<rparr>
          in snd (handle_batman_inotify_events_if bw False (init_io ini) self))"

definition binder_devmon_if_start_io ::
  "batman_wrappers \<Rightarrow> DevMon_if \<Rightarrow> RadioClient \<Rightarrow> ofono_slot \<Rightarrow> batman_init \<Rightarrow> DevMonIo_if" where
  "binder_devmon_if_start_io bw impl cl sl ini =
     (let self = \<lparr>if_slot = sl, if_battery = if_dm_battery impl,
                   if_charger = if_dm_charger impl, if_display = if_dm_display impl,
                   if_client = cl, if_req = None,
                   if_display_on = binder_devmon_if_display_on (if_dm_display impl),
                   if_ind_filter_supported = True,
                   if_cell_info_interval_short_ms = if_dm_cell_info_interval_short_ms impl,
                   if_cell_info_interval_long_ms = if_dm_cell_info_interval_long_ms impl,
                   if_batman_inotify_fd = 0, if_batman_screen_wd = 0,
                   if_batman_watch_source = 0\<rparr>;
          self = binder_devmon_if_io_set_indication_filter self;
          self = binder_devmon_if_io_set_cell_info_update_interval self
      in binder_devmon_if_io_init_batman_watch bw ini self)"

section \<open>The event loop\<close>

text \<open>
  Everything reaches the plugin as one callback at a time on the main loop: a source
  object has changed and its handler fires, the transport completes a request that is in
  flight, or the inotify watch (while its GLib source is attached) becomes readable.
\<close>

datatype devmon_event =
  Connman_changed BinderConnman
  | Battery_changed MceBattery
  | Charger_changed MceCharger
  | Display_changed MceDisplay
  | Radio_completed nat RADIO_TX_STATUS RADIO_RESP RADIO_ERROR
  | Batman_inotify batman_io

definition radio_deliver :: "nat \<Rightarrow> RadioClient \<Rightarrow> (completion \<times> RadioClient) option" where
  "radio_deliver req c =
     (case map_of (client_pending c) req of
        None \<Rightarrow> None
      | Some cb \<Rightarrow>
          Some (cb, c\<lparr>client_pending := filter (\<lambda>p. fst p \<noteq> req) (client_pending c)\<rparr>))"

fun ds_step :: "batman_wrappers \<Rightarrow> devmon_event \<Rightarrow> DevMonIo_ds \<Rightarrow> DevMonIo_ds" where
  "ds_step bw (Connman_changed x) self = binder_devmon_ds_io_connman_cb (self\<lparr>connman := x\<rparr>)"
| "ds_step bw (Battery_changed x) self = binder_devmon_ds_io_battery_cb (self\<lparr>battery := x\<rparr>)"
| "ds_step bw (Charger_changed x) self = binder_devmon_ds_io_charger_cb (self\<lparr>charger := x\<rparr>)"
| "ds_step bw (Display_changed x) self = binder_devmon_ds_io_display_cb (self\<lparr>display := x\<rparr>)"
| "ds_step bw (Radio_completed req status resp error) self =
     (case radio_deliver req (client self) of
        None \<Rightarrow> self
      | Some (cb, c) \<Rightarrow>
          (case cb of
             Low_data_state_sent \<Rightarrow>
               binder_devmon_ds_io_low_data_state_sent req status resp error (self\<lparr>client := c\<rparr>)
           | Charging_state_sent \<Rightarrow>
               binder_devmon_ds_io_charging_state_sent req status resp error (self\<lparr>client := c\<rparr>)
           | Indication_filter_sent \<Rightarrow> self\<lparr>client := c\<rparr>))"
| "ds_step bw (Batman_inotify io) self =
     (if batman_watch_source self \<noteq> 0
      then snd (handle_batman_inotify_events_ds bw True io self)
      else self)"

fun ds_run :: "batman_wrappers \<Rightarrow> devmon_event list \<Rightarrow> DevMonIo_ds \<Rightarrow> DevMonIo_ds" where
  "ds_run bw [] self = self"
| "ds_run bw (e # es) self = ds_run bw es (ds_step bw e self)"

fun if_step :: "batman_wrappers \<Rightarrow> devmon_event \<Rightarrow> DevMonIo_if \<Rightarrow> DevMonIo_if" where
  "if_step bw (Connman_changed x) self = self"
| "if_step bw (Battery_changed x) self = binder_devmon_if_io_battery_cb (self\<lparr>if_battery := x\<rparr>)"
| "if_step bw (Charger_changed x) self = binder_devmon_if_io_charger_cb (self\<lparr>if_charger := x\<rparr>)"
| "if_step bw (Display_changed x) self = binder_devmon_if_io_display_cb (self\<lparr>if_display := x\<rparr>)"
| "if_step bw (Radio_completed req status resp error) self =
     (case radio_deliver req (if_client self) of
        None \<Rightarrow> self
      | Some (cb, c) \<Rightarrow>
          (case cb of
             Indication_filter_sent \<Rightarrow>
               binder_devmon_if_io_indication_filter_sent req status resp error
                 (self\<lparr>if_client := c\<rparr>)
           | _ \<Rightarrow> self\<lparr>if_client := c\<rparr>))"
| "if_step bw (Batman_inotify io) self =
     (if if_batman_watch_source self \<noteq> 0
      then snd (handle_batman_inotify_events_if bw True io self)
      else self)"

fun if_run :: "batman_wrappers \<Rightarrow> devmon_event list \<Rightarrow> DevMonIo_if \<Rightarrow> DevMonIo_if" where
  "if_run bw [] self = self"
| "if_run bw (e # es) self = if_run bw es (if_step bw e self)"

section \<open>Reading the client's log\<close>

text \<open>
  \<open>sent_states ty\<close> lists the values of the \<open>sendDeviceState\<close> requests of one type in
  the order they were submitted, \<open>sent_reqs ty\<close> their request numbers, \<open>filter_reqs\<close> the
  request numbers of the indication filter requests. \<open>pending_of cb\<close> keeps the
  requests in flight that are bound to one completion function.
\<close>

fun sent_state :: "RADIO_DEVICE_STATE \<Rightarrow> radio_action \<Rightarrow> bool option" where
  "sent_state ty (Submit r code (Device_state_args ty' st)) = (if ty' = ty then Some st else None)"
| "sent_state ty (Submit r code (Indication_filter_args v)) = None"
| "sent_state ty (Drop r) = None"

fun sent_req :: "RADIO_DEVICE_STATE \<Rightarrow> radio_action \<Rightarrow> nat option" where
  "sent_req ty (Submit r code (Device_state_args ty' st)) = (if ty' = ty then Some r else None)"
| "sent_req ty (Submit r code (Indication_filter_args v)) = None"
| "sent_req ty (Drop r) = None"

fun filter_req :: "radio_action \<Rightarrow> nat option" where
  "filter_req (Submit r code (Indication_filter_args v)) = Some r"
| "filter_req (Submit r code (Device_state_args ty st)) = None"
| "filter_req (Drop r) = None"

definition sent_states :: "RADIO_DEVICE_STATE \<Rightarrow> radio_action list \<Rightarrow> bool list" where
  "sent_states ty acts = List.map_filter (sent_state ty) acts"

definition sent_reqs :: "RADIO_DEVICE_STATE \<Rightarrow> radio_action list \<Rightarrow> nat list" where
  "sent_reqs ty acts = List.map_filter (sent_req ty) acts"

definition filter_reqs :: "radio_action list \<Rightarrow> nat list" where
  "filter_reqs acts = List.map_filter filter_req acts"

definition pending_of :: "completion \<Rightarrow> RadioClient \<Rightarrow> nat list" where
  "pending_of cb c = map fst (filter (\<lambda>p. snd p = cb) (client_pending c))"

definition last_option :: "'a list \<Rightarrow> 'a option" where
  "last_option xs = (if xs = [] then None else Some (last xs))"

section \<open>Vocabulary of the proofs\<close>

text \<open>
  The block \<open>if (self->low_data != low_data) { ... }\<close> stands three times in
  \<open>binder_devmon_ds.c\<close> (and its twin for charging as often): in the update function
  and inlined in the inotify handler. \<open>ds_emit_low_data\<close> and \<open>ds_emit_charging\<close>
  are that block with the new value as an argument, written out down to the client; the
  lemmas \<open>update_low_data_emit\<close>, \<open>update_charging_emit\<close> and \<open>handler_ds_emit\<close>
  below show that the source functions are these blocks applied to their own rule.
\<close>

definition ds_emit_low_data :: "bool \<Rightarrow> DevMonIo_ds \<Rightarrow> DevMonIo_ds" where
  "ds_emit_low_data v self =
     (if low_data self = v then self
      else if low_data_supported self then
        self\<lparr>low_data := v,
             client := snd (radio_request_submit (client_next (client self))
                 RADIO_REQ_SEND_DEVICE_STATE
                 (Device_state_args RADIO_DEVICE_STATE_LOW_DATA_EXPECTED v) Low_data_state_sent
                 (snd (radio_request_new (radio_request_drop (low_data_req self) (client self))))),
             low_data_req :=
               (if client_next (client self) \<in> set (client_fail (client self)) then None
                else Some (client_next (client self)))\<rparr>
      else self\<lparr>low_data := v\<rparr>)"

definition ds_emit_charging :: "bool \<Rightarrow> DevMonIo_ds \<Rightarrow> DevMonIo_ds" where
  "ds_emit_charging v self =
     (if charging self = v then self
      else if charging_supported self then
        self\<lparr>charging := v,
             client := snd (radio_request_submit (client_next (client self))
                 RADIO_REQ_SEND_DEVICE_STATE
                 (Device_state_args RADIO_DEVICE_STATE_CHARGING_STATE v) Charging_state_sent
                 (snd (radio_request_new (radio_request_drop (charging_req self) (client self))))),
             charging_req :=
               (if client_next (client self) \<in> set (client_fail (client self)) then None
                else Some (client_next (client self)))\<rparr>
      else self\<lparr>charging := v\<rparr>)"

definition ds_set_interval :: "int \<Rightarrow> DevMonIo_ds \<Rightarrow> DevMonIo_ds" where
  "ds_set_interval ms self =
     self\<lparr>slot := ofono_slot_set_cell_info_update_interval (slot self) ms\<rparr>"

text \<open>
  The pending-slot invariant: the requests in flight for a completion function are at
  most the one request stored in the matching slot, and a stored request is the last one
  submitted of its kind.
\<close>

definition ds_pending_inv :: "DevMonIo_ds \<Rightarrow> bool" where
  "ds_pending_inv s \<longleftrightarrow>
     (pending_of Low_data_state_sent (client s) = [] \<or>
      map Some (pending_of Low_data_state_sent (client s)) = [low_data_req s]) \<and>
     (pending_of Charging_state_sent (client s) = [] \<or>
      map Some (pending_of Charging_state_sent (client s)) = [charging_req s]) \<and>
     (low_data_req s = None \<or>
      low_data_req s =
        last_option (sent_reqs RADIO_DEVICE_STATE_LOW_DATA_EXPECTED (client_log (client s)))) \<and>
     (charging_req s = None \<or>
      charging_req s =
        last_option (sent_reqs RADIO_DEVICE_STATE_CHARGING_STATE (client_log (client s))))"

definition if_pending_inv :: "DevMonIo_if \<Rightarrow> bool" where
  "if_pending_inv s \<longleftrightarrow>
     (pending_of Indication_filter_sent (if_client s) = [] \<or>
      map Some (pending_of Indication_filter_sent (if_client s)) = [if_req s]) \<and>
     (if_req s = None \<or>
      if_req s = last_option (filter_reqs (client_log (if_client s))))"

text \<open>
  The edge invariant: the values submitted for one device state alternate, and while the
  state is supported the stored last value is the last one submitted (FALSE, the value
  \<open>g_new0\<close> leaves, when nothing was submitted yet).
\<close>

definition ds_edge_inv :: "DevMonIo_ds \<Rightarrow> bool" where
  "ds_edge_inv s \<longleftrightarrow>
     distinct_adj (sent_states RADIO_DEVICE_STATE_LOW_DATA_EXPECTED (client_log (client s))) \<and>
     distinct_adj (sent_states RADIO_DEVICE_STATE_CHARGING_STATE (client_log (client s))) \<and>
     (low_data_supported s \<longrightarrow>
        low_data s =
          (sent_states RADIO_DEVICE_STATE_LOW_DATA_EXPECTED (client_log (client s)) \<noteq> [] \<and>
           last (sent_states RADIO_DEVICE_STATE_LOW_DATA_EXPECTED (client_log (client s))))) \<and>
     (charging_supported s \<longrightarrow>
        charging s =
          (sent_states RADIO_DEVICE_STATE_CHARGING_STATE (client_log (client s)) \<noteq> [] \<and>
           last (sent_states RADIO_DEVICE_STATE_CHARGING_STATE (client_log (client s)))))"

text \<open>
  Sample inputs for the closed instances below: one numbering of the batman states with
  pairwise distinct, non-negative values, a new client, an empty slot, and a watch that
  could not be set up.
\<close>

definition batman_sample :: batman_wrappers where
  "batman_sample =
     \<lparr>BATMAN_UNKNOWN = 0, BATMAN_NO_BATTERY = 1, BATMAN_CHARGING = 2,
      BATMAN_DISCHARGING = 3, BATMAN_FULLY_CHARGED = 4\<rparr>"

definition client_sample :: RadioClient where
  "client_sample =
     \<lparr>client_interface = 2, client_next = 0, client_fail = [], client_pending = [],
      client_log = []\<rparr>"

definition slot_sample :: ofono_slot where
  "slot_sample = \<lparr>slot_intervals = []\<rparr>"

definition io_sample :: "string \<Rightarrow> int \<Rightarrow> batman_io" where
  "io_sample content st =
     \<lparr>io_condition_failed = False, io_read_error = False, io_bytes_read = 16,
      io_screen_file = Some content, io_battery_state = st\<rparr>"

definition no_watch :: batman_init where
  "no_watch =
     \<lparr>init_inotify_fd = - 1, init_screen_wd = - 1, init_watch_source = 0,
      init_io = io_sample ''no'' 0\<rparr>"

definition with_watch :: "string \<Rightarrow> int \<Rightarrow> batman_init" where
  "with_watch content st =
     \<lparr>init_inotify_fd = 5, init_screen_wd = 1, init_watch_source = 7,
      init_io = io_sample content st\<rparr>"

definition ds_sample :: "bool \<Rightarrow> MCE_CHARGER_STATE \<Rightarrow> MCE_DISPLAY_STATE \<Rightarrow> DevMon_ds" where
  "ds_sample teth ch d =
     \<lparr>ds_connman = \<lparr>connman_valid = True, connman_tethering = teth\<rparr>,
      ds_battery = \<lparr>battery_valid = True, battery_status = MCE_BATTERY_OK\<rparr>,
      ds_charger = \<lparr>charger_valid = True, charger_state = ch\<rparr>,
      ds_display = \<lparr>display_valid = True, display_state = d\<rparr>,
      ds_cell_info_interval_short_ms = 2000,
      ds_cell_info_interval_long_ms = 30000\<rparr>"

definition if_sample :: "MCE_CHARGER_STATE \<Rightarrow> MCE_DISPLAY_STATE \<Rightarrow> DevMon_if" where
  "if_sample ch d =
     \<lparr>if_dm_battery = \<lparr>battery_valid = True, battery_status = MCE_BATTERY_OK\<rparr>,
      if_dm_charger = \<lparr>charger_valid = True, charger_state = ch\<rparr>,
      if_dm_display = \<lparr>display_valid = True, display_state = d\<rparr>,
      if_dm_cell_info_interval_short_ms = 2000,
      if_dm_cell_info_interval_long_ms = 30000\<rparr>"

section \<open>Unfolding the source functions\<close>

lemmas ds_predicates =
  binder_devmon_ds_tethering_on_def binder_devmon_ds_battery_ok_def
  binder_devmon_ds_charging_def binder_devmon_ds_display_on_def

lemmas if_predicates =
  binder_devmon_if_battery_ok_def binder_devmon_if_charging_def binder_devmon_if_display_on_def

lemmas radio_defs =
  radio_request_new_def radio_request_submit_def radio_request_drop_def
  radio_client_interface_def

lemma update_low_data_emit:
  "binder_devmon_ds_io_update_low_data self =
     ds_emit_low_data (\<not> binder_devmon_ds_tethering_on (connman self) \<and>
                 \<not> binder_devmon_ds_charging (charger self) \<and>
                 \<not> binder_devmon_ds_display_on (display self)) self"
  by (auto simp: binder_devmon_ds_io_update_low_data_def ds_emit_low_data_def
      binder_devmon_ds_io_send_device_state_def radio_defs Let_def split: option.splits)

lemma update_charging_emit:
  "binder_devmon_ds_io_update_charging self =
     ds_emit_charging (binder_devmon_ds_charging (charger self)) self"
  by (auto simp: binder_devmon_ds_io_update_charging_def ds_emit_charging_def
      binder_devmon_ds_io_send_device_state_def radio_defs Let_def split: option.splits)


lemma low_data_block:
  "(if low_data self \<noteq> low then
      let self = self\<lparr>low_data := low\<rparr> in
      if low_data_supported self then
        let self = self\<lparr>client := radio_request_drop (low_data_req self) (client self)\<rparr>;
            (req, self) = binder_devmon_ds_io_send_device_state self
                            RADIO_DEVICE_STATE_LOW_DATA_EXPECTED low Low_data_state_sent
        in self\<lparr>low_data_req := req\<rparr>
      else self
    else self) = ds_emit_low_data low self"
  by (auto simp: ds_emit_low_data_def
      binder_devmon_ds_io_send_device_state_def radio_defs Let_def split: option.splits)

lemma charging_block:
  "(if charging self \<noteq> chg then
      let self = self\<lparr>charging := chg\<rparr> in
      if charging_supported self then
        let self = self\<lparr>client := radio_request_drop (charging_req self) (client self)\<rparr>;
            (req, self) = binder_devmon_ds_io_send_device_state self
                            RADIO_DEVICE_STATE_CHARGING_STATE chg Charging_state_sent
        in self\<lparr>charging_req := req\<rparr>
      else self
    else self) = ds_emit_charging chg self"
  by (auto simp: ds_emit_charging_def
      binder_devmon_ds_io_send_device_state_def radio_defs Let_def split: option.splits)

lemma emit_intervals [simp]:
  "cell_info_interval_short_ms (ds_emit_low_data v self) = cell_info_interval_short_ms self"
  "cell_info_interval_long_ms (ds_emit_low_data v self) = cell_info_interval_long_ms self"
  "cell_info_interval_short_ms (ds_emit_charging v self) = cell_info_interval_short_ms self"
  "cell_info_interval_long_ms (ds_emit_charging v self) = cell_info_interval_long_ms self"
  by (simp_all add: ds_emit_low_data_def ds_emit_charging_def)

lemma handler_ds_emit:
  "handle_batman_inotify_events_ds bw channel io self =
     (if channel \<and> (io_condition_failed io \<or> io_read_error io) then
        (G_SOURCE_REMOVE, self\<lparr>batman_watch_source := 0\<rparr>)
      else if channel \<and> io_bytes_read io = 0 then (G_SOURCE_CONTINUE, self)
      else (G_SOURCE_CONTINUE,
            ds_set_interval
              (if batman_read_screen (io_screen_file io) \<noteq> 0 \<or>
                  io_battery_state io = BATMAN_CHARGING bw \<or>
                  io_battery_state io = BATMAN_FULLY_CHARGED bw
               then cell_info_interval_short_ms self else cell_info_interval_long_ms self)
              (ds_emit_charging
                 (io_battery_state io = BATMAN_CHARGING bw \<or>
                  io_battery_state io = BATMAN_FULLY_CHARGED bw)
                 (ds_emit_low_data
                    (batman_read_screen (io_screen_file io) = 0 \<and>
                     io_battery_state io = BATMAN_DISCHARGING bw) self))))"
  unfolding handle_batman_inotify_events_ds_def low_data_block charging_block
  by (simp add: Let_def ds_set_interval_def)


section \<open>Lists of the log\<close>

lemma sent_states_append [simp]:
  "sent_states ty (xs @ ys) = sent_states ty xs @ sent_states ty ys"
  by (simp add: sent_states_def List.map_filter_def)

lemma sent_reqs_append [simp]:
  "sent_reqs ty (xs @ ys) = sent_reqs ty xs @ sent_reqs ty ys"
  by (simp add: sent_reqs_def List.map_filter_def)

lemma filter_reqs_append [simp]:
  "filter_reqs (xs @ ys) = filter_reqs xs @ filter_reqs ys"
  by (simp add: filter_reqs_def List.map_filter_def)

lemma sent_states_single [simp]:
  "sent_states ty [] = []"
  "sent_states ty [Drop r] = []"
  "sent_states ty [Submit r code (Device_state_args ty' v)] = (if ty' = ty then [v] else [])"
  "sent_states ty [Submit r code (Indication_filter_args w)] = []"
  by (simp_all add: sent_states_def)

lemma sent_reqs_single [simp]:
  "sent_reqs ty [] = []"
  "sent_reqs ty [Drop r] = []"
  "sent_reqs ty [Submit r code (Device_state_args ty' v)] = (if ty' = ty then [r] else [])"
  "sent_reqs ty [Submit r code (Indication_filter_args w)] = []"
  by (simp_all add: sent_reqs_def)

lemma filter_reqs_single [simp]:
  "filter_reqs [] = []"
  "filter_reqs [Drop r] = []"
  "filter_reqs [Submit r code (Device_state_args ty' v)] = []"
  "filter_reqs [Submit r code (Indication_filter_args w)] = [r]"
  by (simp_all add: filter_reqs_def)

lemma last_option_simps [simp]:
  "last_option [] = None"
  "last_option (xs @ [x]) = Some x"
  by (simp_all add: last_option_def)

lemma pending_of_filter:
  "map fst (filter (\<lambda>p. fst p \<noteq> r \<and> snd p = cb) ps) =
     filter (\<lambda>x. x \<noteq> r) (map fst (filter (\<lambda>p. snd p = cb) ps))"
  by (induction ps) auto

lemma pending_of_drop:
  "pending_of cb (c\<lparr>client_pending := filter (\<lambda>p. fst p \<noteq> r) (client_pending c)\<rparr>) =
     filter (\<lambda>x. x \<noteq> r) (pending_of cb c)"
  by (simp add: pending_of_def pending_of_filter)

lemma map_of_pending:
  "map_of (client_pending c) r = Some cb \<Longrightarrow> r \<in> set (pending_of cb c)"
  by (force simp: pending_of_def dest: map_of_SomeD)

section \<open>What one block does to the client\<close>

lemma emit_low_log:
  "client_log (client (ds_emit_low_data v s)) =
     client_log (client s) @
       (if low_data s \<noteq> v \<and> low_data_supported s
        then (case low_data_req s of None \<Rightarrow> [] | Some r \<Rightarrow> [Drop r]) @
             [Submit (client_next (client s)) RADIO_REQ_SEND_DEVICE_STATE
                (Device_state_args RADIO_DEVICE_STATE_LOW_DATA_EXPECTED v)]
        else [])"
  by (auto simp: ds_emit_low_data_def radio_defs split: option.splits)

lemma emit_chg_log:
  "client_log (client (ds_emit_charging v s)) =
     client_log (client s) @
       (if charging s \<noteq> v \<and> charging_supported s
        then (case charging_req s of None \<Rightarrow> [] | Some r \<Rightarrow> [Drop r]) @
             [Submit (client_next (client s)) RADIO_REQ_SEND_DEVICE_STATE
                (Device_state_args RADIO_DEVICE_STATE_CHARGING_STATE v)]
        else [])"
  by (auto simp: ds_emit_charging_def radio_defs split: option.splits)

lemma emit_low_pending:
  "pending_of cb (client (ds_emit_low_data v s)) =
     (if low_data s \<noteq> v \<and> low_data_supported s
      then (case low_data_req s of None \<Rightarrow> pending_of cb (client s)
            | Some r \<Rightarrow> filter (\<lambda>x. x \<noteq> r) (pending_of cb (client s))) @
           (if cb = Low_data_state_sent \<and> client_next (client s) \<notin> set (client_fail (client s))
            then [client_next (client s)] else [])
      else pending_of cb (client s))"
  by (auto simp: ds_emit_low_data_def radio_defs pending_of_def pending_of_filter split: option.splits)

lemma emit_chg_pending:
  "pending_of cb (client (ds_emit_charging v s)) =
     (if charging s \<noteq> v \<and> charging_supported s
      then (case charging_req s of None \<Rightarrow> pending_of cb (client s)
            | Some r \<Rightarrow> filter (\<lambda>x. x \<noteq> r) (pending_of cb (client s))) @
           (if cb = Charging_state_sent \<and> client_next (client s) \<notin> set (client_fail (client s))
            then [client_next (client s)] else [])
      else pending_of cb (client s))"
  by (auto simp: ds_emit_charging_def radio_defs pending_of_def pending_of_filter split: option.splits)


lemma map_Some_single: "map Some xs = [y] \<longleftrightarrow> (\<exists>x. xs = [x] \<and> y = Some x)"
  by (cases xs) auto

lemma emit_low_fields [simp]:
  "low_data_req (ds_emit_low_data v s) =
     (if low_data s \<noteq> v \<and> low_data_supported s
      then (if client_next (client s) \<in> set (client_fail (client s)) then None
            else Some (client_next (client s)))
      else low_data_req s)"
  "charging_req (ds_emit_low_data v s) = charging_req s"
  "low_data (ds_emit_low_data v s) = v"
  "charging (ds_emit_low_data v s) = charging s"
  "low_data_supported (ds_emit_low_data v s) = low_data_supported s"
  "charging_supported (ds_emit_low_data v s) = charging_supported s"
  "slot (ds_emit_low_data v s) = slot s"
  "batman_watch_source (ds_emit_low_data v s) = batman_watch_source s"
  by (auto simp: ds_emit_low_data_def)

lemma emit_chg_fields [simp]:
  "charging_req (ds_emit_charging v s) =
     (if charging s \<noteq> v \<and> charging_supported s
      then (if client_next (client s) \<in> set (client_fail (client s)) then None
            else Some (client_next (client s)))
      else charging_req s)"
  "low_data_req (ds_emit_charging v s) = low_data_req s"
  "charging (ds_emit_charging v s) = v"
  "low_data (ds_emit_charging v s) = low_data s"
  "low_data_supported (ds_emit_charging v s) = low_data_supported s"
  "charging_supported (ds_emit_charging v s) = charging_supported s"
  "slot (ds_emit_charging v s) = slot s"
  "batman_watch_source (ds_emit_charging v s) = batman_watch_source s"
  by (auto simp: ds_emit_charging_def)

lemma set_interval_fields [simp]:
  "client (ds_set_interval ms s) = client s"
  "low_data_req (ds_set_interval ms s) = low_data_req s"
  "charging_req (ds_set_interval ms s) = charging_req s"
  "low_data (ds_set_interval ms s) = low_data s"
  "charging (ds_set_interval ms s) = charging s"
  "low_data_supported (ds_set_interval ms s) = low_data_supported s"
  "charging_supported (ds_set_interval ms s) = charging_supported s"
  "slot_intervals (slot (ds_set_interval ms s)) = slot_intervals (slot s) @ [ms]"
  by (simp_all add: ds_set_interval_def ofono_slot_set_cell_info_update_interval_def)

lemma set_cell_info_ds:
  "binder_devmon_ds_io_set_cell_info_update_interval self =
     ds_set_interval
       (if binder_devmon_ds_display_on (display self) \<and>
            (binder_devmon_ds_charging (charger self) \<or>
             binder_devmon_ds_battery_ok (battery self))
         then cell_info_interval_short_ms self
         else cell_info_interval_long_ms self) self"
  by (simp add: binder_devmon_ds_io_set_cell_info_update_interval_def ds_set_interval_def)

section \<open>The pending-slot invariant\<close>

lemma ds_pending_inv_emit_low: "ds_pending_inv s \<Longrightarrow> ds_pending_inv (ds_emit_low_data v s)"
  unfolding ds_pending_inv_def
  by (auto simp: emit_low_log emit_low_pending map_Some_single split: option.splits if_splits)

lemma ds_pending_inv_emit_chg: "ds_pending_inv s \<Longrightarrow> ds_pending_inv (ds_emit_charging v s)"
  unfolding ds_pending_inv_def
  by (auto simp: emit_chg_log emit_chg_pending map_Some_single split: option.splits if_splits)

lemma ds_pending_inv_set_interval [simp]: "ds_pending_inv (ds_set_interval ms s) = ds_pending_inv s"
  by (simp add: ds_pending_inv_def)

lemma ds_pending_inv_sources [simp]:
  "ds_pending_inv (s\<lparr>connman := a\<rparr>) = ds_pending_inv s"
  "ds_pending_inv (s\<lparr>battery := b\<rparr>) = ds_pending_inv s"
  "ds_pending_inv (s\<lparr>charger := c\<rparr>) = ds_pending_inv s"
  "ds_pending_inv (s\<lparr>display := d\<rparr>) = ds_pending_inv s"
  "ds_pending_inv (s\<lparr>batman_watch_source := n\<rparr>) = ds_pending_inv s"
  "ds_pending_inv (s\<lparr>batman_inotify_fd := i\<rparr>) = ds_pending_inv s"
  "ds_pending_inv (s\<lparr>batman_screen_wd := j\<rparr>) = ds_pending_inv s"
  by (simp_all add: ds_pending_inv_def)

lemma ds_pending_inv_completed:
  "ds_pending_inv s \<Longrightarrow> ds_pending_inv (ds_step bw (Radio_completed req st resp err) s)"
proof -
  assume inv: "ds_pending_inv s"
  show ?thesis
  proof (cases "map_of (client_pending (client s)) req")
    case None
    with inv show ?thesis by (simp add: radio_deliver_def)
  next
    case (Some cb)
    from map_of_pending[OF Some] have mem: "req \<in> set (pending_of cb (client s))" .
    show ?thesis
    proof (cases cb)
      case Low_data_state_sent
      with inv mem Some show ?thesis
        unfolding ds_pending_inv_def
        by (auto simp: radio_deliver_def binder_devmon_ds_io_low_data_state_sent_def
            pending_of_drop map_Some_single Let_def split: if_splits)
    next
      case Charging_state_sent
      with inv mem Some show ?thesis
        unfolding ds_pending_inv_def
        by (auto simp: radio_deliver_def binder_devmon_ds_io_charging_state_sent_def
            pending_of_drop map_Some_single Let_def split: if_splits)
    next
      case Indication_filter_sent
      with inv mem Some show ?thesis
        unfolding ds_pending_inv_def
        by (auto simp: radio_deliver_def pending_of_drop map_Some_single split: if_splits)
    qed
  qed
qed

lemma ds_pending_inv_handler:
  "ds_pending_inv s \<Longrightarrow> ds_pending_inv (snd (handle_batman_inotify_events_ds bw ch io s))"
  by (simp add: handler_ds_emit ds_pending_inv_emit_low ds_pending_inv_emit_chg)

lemma ds_pending_inv_step: "ds_pending_inv s \<Longrightarrow> ds_pending_inv (ds_step bw e s)"
proof (cases e)
  case (Radio_completed req st resp err)
  then show "ds_pending_inv s \<Longrightarrow> ?thesis" by (simp only: ds_pending_inv_completed)
qed (simp_all add: binder_devmon_ds_io_connman_cb_def binder_devmon_ds_io_battery_cb_def
      binder_devmon_ds_io_charger_cb_def binder_devmon_ds_io_display_cb_def
      update_low_data_emit update_charging_emit set_cell_info_ds
      ds_pending_inv_emit_low ds_pending_inv_emit_chg ds_pending_inv_handler)

lemma ds_pending_inv_run: "ds_pending_inv s \<Longrightarrow> ds_pending_inv (ds_run bw es s)"
  by (induction es arbitrary: s) (simp_all add: ds_pending_inv_step)

lemma ds_pending_inv_init_watch:
  "ds_pending_inv s \<Longrightarrow> ds_pending_inv (binder_devmon_ds_io_init_batman_watch bw ini s)"
  by (simp add: binder_devmon_ds_io_init_batman_watch_def Let_def ds_pending_inv_handler)

lemma ds_pending_inv_start:
  "client_pending cl = [] \<Longrightarrow> client_log cl = [] \<Longrightarrow>
   ds_pending_inv (binder_devmon_ds_start_io bw ds cl sl ini)"
  unfolding binder_devmon_ds_start_io_def Let_def
  apply (rule ds_pending_inv_init_watch)
  apply (simp only: update_low_data_emit update_charging_emit set_cell_info_ds ds_pending_inv_set_interval)
  apply (rule ds_pending_inv_emit_chg)
  apply (rule ds_pending_inv_emit_low)
  apply (simp add: ds_pending_inv_def pending_of_def)
  done


section \<open>The edge invariant\<close>

lemma ds_edge_inv_emit_low: "ds_edge_inv s \<Longrightarrow> ds_edge_inv (ds_emit_low_data v s)"
  unfolding ds_edge_inv_def
  by (auto simp: emit_low_log distinct_adj_append_iff split: option.splits if_splits)

lemma ds_edge_inv_emit_chg: "ds_edge_inv s \<Longrightarrow> ds_edge_inv (ds_emit_charging v s)"
  unfolding ds_edge_inv_def
  by (auto simp: emit_chg_log distinct_adj_append_iff split: option.splits if_splits)

lemma ds_edge_inv_set_interval [simp]: "ds_edge_inv (ds_set_interval ms s) = ds_edge_inv s"
  by (simp add: ds_edge_inv_def)

lemma ds_edge_inv_sources [simp]:
  "ds_edge_inv (s\<lparr>connman := a\<rparr>) = ds_edge_inv s"
  "ds_edge_inv (s\<lparr>battery := b\<rparr>) = ds_edge_inv s"
  "ds_edge_inv (s\<lparr>charger := c\<rparr>) = ds_edge_inv s"
  "ds_edge_inv (s\<lparr>display := d\<rparr>) = ds_edge_inv s"
  "ds_edge_inv (s\<lparr>batman_watch_source := n\<rparr>) = ds_edge_inv s"
  "ds_edge_inv (s\<lparr>batman_inotify_fd := i\<rparr>) = ds_edge_inv s"
  "ds_edge_inv (s\<lparr>batman_screen_wd := j\<rparr>) = ds_edge_inv s"
  by (simp_all add: ds_edge_inv_def)

lemma ds_edge_inv_completed:
  "ds_edge_inv s \<Longrightarrow> ds_edge_inv (ds_step bw (Radio_completed req st resp err) s)"
  unfolding ds_edge_inv_def
  by (auto simp: radio_deliver_def binder_devmon_ds_io_low_data_state_sent_def
      binder_devmon_ds_io_charging_state_sent_def Let_def
      split: option.splits completion.splits)

lemma ds_edge_inv_handler:
  "ds_edge_inv s \<Longrightarrow> ds_edge_inv (snd (handle_batman_inotify_events_ds bw ch io s))"
  by (simp add: handler_ds_emit ds_edge_inv_emit_low ds_edge_inv_emit_chg)

lemma ds_edge_inv_step: "ds_edge_inv s \<Longrightarrow> ds_edge_inv (ds_step bw e s)"
proof (cases e)
  case (Radio_completed req st resp err)
  then show "ds_edge_inv s \<Longrightarrow> ?thesis" by (simp only: ds_edge_inv_completed)
qed (simp_all add: binder_devmon_ds_io_connman_cb_def binder_devmon_ds_io_battery_cb_def
      binder_devmon_ds_io_charger_cb_def binder_devmon_ds_io_display_cb_def
      update_low_data_emit update_charging_emit set_cell_info_ds
      ds_edge_inv_emit_low ds_edge_inv_emit_chg ds_edge_inv_handler)

lemma ds_edge_inv_run: "ds_edge_inv s \<Longrightarrow> ds_edge_inv (ds_run bw es s)"
  by (induction es arbitrary: s) (simp_all add: ds_edge_inv_step)

lemma ds_edge_inv_init_watch:
  "ds_edge_inv s \<Longrightarrow> ds_edge_inv (binder_devmon_ds_io_init_batman_watch bw ini s)"
  by (simp add: binder_devmon_ds_io_init_batman_watch_def Let_def ds_edge_inv_handler)

lemma ds_edge_inv_start:
  "client_log cl = [] \<Longrightarrow> ds_edge_inv (binder_devmon_ds_start_io bw ds cl sl ini)"
  unfolding binder_devmon_ds_start_io_def Let_def
  apply (rule ds_edge_inv_init_watch)
  apply (simp only: update_low_data_emit update_charging_emit set_cell_info_ds ds_edge_inv_set_interval)
  apply (rule ds_edge_inv_emit_chg)
  apply (rule ds_edge_inv_emit_low)
  apply (simp add: ds_edge_inv_def)
  done

section \<open>Unsupported stays unsupported\<close>

lemma ds_low_unsupported_step:
  "\<not> low_data_supported s \<Longrightarrow>
   \<not> low_data_supported (ds_step bw e s) \<and>
   sent_reqs RADIO_DEVICE_STATE_LOW_DATA_EXPECTED (client_log (client (ds_step bw e s))) =
   sent_reqs RADIO_DEVICE_STATE_LOW_DATA_EXPECTED (client_log (client s))"
  by (cases e)
    (auto simp: binder_devmon_ds_io_connman_cb_def binder_devmon_ds_io_battery_cb_def
      binder_devmon_ds_io_charger_cb_def binder_devmon_ds_io_display_cb_def
      update_low_data_emit update_charging_emit set_cell_info_ds handler_ds_emit
      emit_low_log emit_chg_log radio_deliver_def
      binder_devmon_ds_io_low_data_state_sent_def
      binder_devmon_ds_io_charging_state_sent_def Let_def
      split: option.splits completion.splits)

lemma ds_chg_unsupported_step:
  "\<not> charging_supported s \<Longrightarrow>
   \<not> charging_supported (ds_step bw e s) \<and>
   sent_reqs RADIO_DEVICE_STATE_CHARGING_STATE (client_log (client (ds_step bw e s))) =
   sent_reqs RADIO_DEVICE_STATE_CHARGING_STATE (client_log (client s))"
  by (cases e)
    (auto simp: binder_devmon_ds_io_connman_cb_def binder_devmon_ds_io_battery_cb_def
      binder_devmon_ds_io_charger_cb_def binder_devmon_ds_io_display_cb_def
      update_low_data_emit update_charging_emit set_cell_info_ds handler_ds_emit
      emit_low_log emit_chg_log radio_deliver_def
      binder_devmon_ds_io_low_data_state_sent_def
      binder_devmon_ds_io_charging_state_sent_def Let_def
      split: option.splits completion.splits)

lemma ds_low_unsupported_run:
  "\<not> low_data_supported s \<Longrightarrow>
   \<not> low_data_supported (ds_run bw es s) \<and>
   sent_reqs RADIO_DEVICE_STATE_LOW_DATA_EXPECTED (client_log (client (ds_run bw es s))) =
   sent_reqs RADIO_DEVICE_STATE_LOW_DATA_EXPECTED (client_log (client s))"
proof (induction es arbitrary: s)
  case Nil
  then show ?case by simp
next
  case (Cons e es)
  from ds_low_unsupported_step[OF Cons.prems, of bw e] Cons.IH[of "ds_step bw e s"]
  show ?case by simp
qed

lemma ds_chg_unsupported_run:
  "\<not> charging_supported s \<Longrightarrow>
   \<not> charging_supported (ds_run bw es s) \<and>
   sent_reqs RADIO_DEVICE_STATE_CHARGING_STATE (client_log (client (ds_run bw es s))) =
   sent_reqs RADIO_DEVICE_STATE_CHARGING_STATE (client_log (client s))"
proof (induction es arbitrary: s)
  case Nil
  then show ?case by simp
next
  case (Cons e es)
  from ds_chg_unsupported_step[OF Cons.prems, of bw e] Cons.IH[of "ds_step bw e s"]
  show ?case by simp
qed

section \<open>Evaluation sets and the screen file\<close>

lemmas sample_defs =
  batman_sample_def client_sample_def slot_sample_def io_sample_def no_watch_def
  with_watch_def ds_sample_def if_sample_def

lemmas ds_source_defs =
  binder_devmon_ds_start_io_def binder_devmon_ds_io_init_batman_watch_def
  binder_devmon_ds_io_connman_cb_def binder_devmon_ds_io_battery_cb_def
  binder_devmon_ds_io_charger_cb_def binder_devmon_ds_io_display_cb_def
  update_low_data_emit update_charging_emit set_cell_info_ds handler_ds_emit
  ds_emit_low_data_def ds_emit_charging_def ds_set_interval_def
  binder_devmon_ds_io_low_data_state_sent_def binder_devmon_ds_io_charging_state_sent_def
  ds_predicates

lemmas if_source_defs =
  binder_devmon_if_start_io_def binder_devmon_if_io_init_batman_watch_def
  binder_devmon_if_io_battery_cb_def binder_devmon_if_io_charger_cb_def
  binder_devmon_if_io_display_cb_def binder_devmon_if_io_set_cell_info_update_interval_def
  binder_devmon_if_io_set_indication_filter_def binder_devmon_if_io_indication_filter_sent_def
  handle_batman_inotify_events_if_def
  RADIO_INTERFACE_1_2_def RADIO_INTERFACE_1_5_def if_predicates

lemmas env_defs =
  radio_defs radio_deliver_def ofono_slot_set_cell_info_update_interval_def
  G_SOURCE_REMOVE_def G_SOURCE_CONTINUE_def MCE_BATTERY_OK_def Let_def

lemma fgets_chars_yes:
  "take 3 (fgets_chars 3 content) = ''yes'' \<longleftrightarrow> take 3 content = ''yes''"
proof (cases content)
  case Nil
  then show ?thesis by (simp add: numeral_3_eq_3)
next
  case (Cons a as)
  note c1 = this
  show ?thesis
  proof (cases as)
    case Nil
    with c1 show ?thesis by (simp add: numeral_3_eq_3)
  next
    case (Cons b bs)
    note c2 = this
    show ?thesis
    proof (cases bs)
      case Nil
      with c1 c2 show ?thesis by (simp add: numeral_3_eq_3)
    next
      case (Cons c cs)
      with c1 c2 show ?thesis by (auto simp add: numeral_3_eq_3)
    qed
  qed
qed

lemma batman_read_screen_yes:
  "batman_read_screen f =
     (if \<exists>content. f = Some content \<and> take 3 content = ''yes'' then 1 else 0)"
  by (auto simp: batman_read_screen_def fgets_def fgets_chars_yes split: option.splits)

lemma if_display_on_step:
  "if_display_on self = binder_devmon_if_display_on (if_display self) \<Longrightarrow>
   if_display_on (if_step bw e self) = binder_devmon_if_display_on (if_display (if_step bw e self))"
  by (cases e)
    (auto simp: binder_devmon_if_io_battery_cb_def binder_devmon_if_io_charger_cb_def
      binder_devmon_if_io_display_cb_def binder_devmon_if_io_set_cell_info_update_interval_def
      binder_devmon_if_io_set_indication_filter_def binder_devmon_if_io_indication_filter_sent_def
      handle_batman_inotify_events_if_def radio_deliver_def radio_defs Let_def
      split: option.splits completion.splits prod.splits if_splits)

lemma if_display_on_run:
  "if_display_on self = binder_devmon_if_display_on (if_display self) \<Longrightarrow>
   if_display_on (if_run bw es self) = binder_devmon_if_display_on (if_display (if_run bw es self))"
  by (induction es arbitrary: self) (simp_all add: if_display_on_step)

lemma if_display_on_start:
  "if_display_on (binder_devmon_if_start_io bw impl cl sl ini) =
     binder_devmon_if_display_on (if_display (binder_devmon_if_start_io bw impl cl sl ini))"
  by (auto simp: binder_devmon_if_start_io_def binder_devmon_if_io_init_batman_watch_def
      binder_devmon_if_io_set_cell_info_update_interval_def
      binder_devmon_if_io_set_indication_filter_def
      handle_batman_inotify_events_if_def radio_defs Let_def split: prod.splits)

section \<open>The decision rules\<close>

text \<open>
  C1. Both variants hand the short interval to the slot exactly when the display is valid
  and not off and, in addition, the charger is valid and on or the battery is valid with a
  status of at least OK; otherwise they hand over the long one. With every signal invalid
  the interval is the long one. The DS variant reads the display object directly; the IF
  variant reads its cached \<open>display_on\<close>, which in every state a session reaches
  agrees with the display object.
\<close>

theorem poll_interval_class:
  assumes "t = if_run bw es (binder_devmon_if_start_io bw impl cl sl ini)"
  shows
  "slot_intervals (slot (binder_devmon_ds_io_set_cell_info_update_interval self)) =
     slot_intervals (slot self) @
       [if display_valid (display self) \<and>
           display_state (display self) \<noteq> MCE_DISPLAY_STATE_OFF \<and>
           (charger_valid (charger self) \<and> charger_state (charger self) = MCE_CHARGER_ON \<or>
            battery_valid (battery self) \<and> MCE_BATTERY_OK \<le> battery_status (battery self))
        then cell_info_interval_short_ms self else cell_info_interval_long_ms self] \<and>
   (\<not> display_valid (display self) \<and> \<not> charger_valid (charger self) \<and>
    \<not> battery_valid (battery self) \<longrightarrow>
      slot_intervals (slot (binder_devmon_ds_io_set_cell_info_update_interval self)) =
        slot_intervals (slot self) @ [cell_info_interval_long_ms self]) \<and>
   slot_intervals (if_slot (binder_devmon_if_io_set_cell_info_update_interval t)) =
     slot_intervals (if_slot t) @
       [if display_valid (if_display t) \<and>
           display_state (if_display t) \<noteq> MCE_DISPLAY_STATE_OFF \<and>
           (charger_valid (if_charger t) \<and> charger_state (if_charger t) = MCE_CHARGER_ON \<or>
            battery_valid (if_battery t) \<and> MCE_BATTERY_OK \<le> battery_status (if_battery t))
        then if_cell_info_interval_short_ms t else if_cell_info_interval_long_ms t] \<and>
   (\<not> display_valid (if_display t) \<and> \<not> charger_valid (if_charger t) \<and>
    \<not> battery_valid (if_battery t) \<longrightarrow>
      slot_intervals (if_slot (binder_devmon_if_io_set_cell_info_update_interval t)) =
        slot_intervals (if_slot t) @ [if_cell_info_interval_long_ms t])"
proof -
  have on: "if_display_on t = binder_devmon_if_display_on (if_display t)"
    unfolding assms by (rule if_display_on_run) (rule if_display_on_start)
  have ds: "slot_intervals (slot (binder_devmon_ds_io_set_cell_info_update_interval self)) =
     slot_intervals (slot self) @
       [if display_valid (display self) \<and>
           display_state (display self) \<noteq> MCE_DISPLAY_STATE_OFF \<and>
           (charger_valid (charger self) \<and> charger_state (charger self) = MCE_CHARGER_ON \<or>
            battery_valid (battery self) \<and> MCE_BATTERY_OK \<le> battery_status (battery self))
        then cell_info_interval_short_ms self else cell_info_interval_long_ms self]"
    by (simp add: binder_devmon_ds_io_set_cell_info_update_interval_def ds_predicates
        ofono_slot_set_cell_info_update_interval_def)
  have ifv: "slot_intervals (if_slot (binder_devmon_if_io_set_cell_info_update_interval t)) =
     slot_intervals (if_slot t) @
       [if display_valid (if_display t) \<and>
           display_state (if_display t) \<noteq> MCE_DISPLAY_STATE_OFF \<and>
           (charger_valid (if_charger t) \<and> charger_state (if_charger t) = MCE_CHARGER_ON \<or>
            battery_valid (if_battery t) \<and> MCE_BATTERY_OK \<le> battery_status (if_battery t))
        then if_cell_info_interval_short_ms t else if_cell_info_interval_long_ms t]"
    by (simp add: binder_devmon_if_io_set_cell_info_update_interval_def on if_predicates
        ofono_slot_set_cell_info_update_interval_def)
  show ?thesis
    by (simp only: ds ifv) simp
qed

theorem poll_interval_class_witness:
  "slot_intervals (slot (binder_devmon_ds_io_set_cell_info_update_interval
      (binder_devmon_ds_start_io batman_sample
         ((ds_sample False MCE_CHARGER_OFF MCE_DISPLAY_STATE_ON)
            \<lparr>ds_battery := \<lparr>battery_valid = False, battery_status = 4\<rparr>,
             ds_charger := \<lparr>charger_valid = False, charger_state = MCE_CHARGER_ON\<rparr>,
             ds_display := \<lparr>display_valid = False, display_state = MCE_DISPLAY_STATE_ON\<rparr>\<rparr>)
         client_sample slot_sample no_watch))) = [30000, 30000] \<and>
   slot_intervals (if_slot (binder_devmon_if_io_set_cell_info_update_interval
      (if_run batman_sample
         [Display_changed \<lparr>display_valid = False, display_state = MCE_DISPLAY_STATE_ON\<rparr>,
          Charger_changed \<lparr>charger_valid = False, charger_state = MCE_CHARGER_ON\<rparr>,
          Battery_changed \<lparr>battery_valid = False, battery_status = 4\<rparr>]
         (binder_devmon_if_start_io batman_sample
            (if_sample MCE_CHARGER_ON MCE_DISPLAY_STATE_ON) client_sample slot_sample
            no_watch)))) = [2000, 30000, 30000, 30000, 30000]"
  using poll_interval_class [OF refl, of
      "binder_devmon_ds_start_io batman_sample
         ((ds_sample False MCE_CHARGER_OFF MCE_DISPLAY_STATE_ON)
            \<lparr>ds_battery := \<lparr>battery_valid = False, battery_status = 4\<rparr>,
             ds_charger := \<lparr>charger_valid = False, charger_state = MCE_CHARGER_ON\<rparr>,
             ds_display := \<lparr>display_valid = False, display_state = MCE_DISPLAY_STATE_ON\<rparr>\<rparr>)
         client_sample slot_sample no_watch"
      batman_sample
      "[Display_changed \<lparr>display_valid = False, display_state = MCE_DISPLAY_STATE_ON\<rparr>,
          Charger_changed \<lparr>charger_valid = False, charger_state = MCE_CHARGER_ON\<rparr>,
          Battery_changed \<lparr>battery_valid = False, battery_status = 4\<rparr>]"
      "if_sample MCE_CHARGER_ON MCE_DISPLAY_STATE_ON" client_sample slot_sample no_watch]
  by (simp add: sample_defs ds_source_defs if_source_defs env_defs)

text \<open>
  C2. The update function of the DS variant sets \<open>low_data\<close> to true exactly when
  tethering, charger and display are all off, where a source that is not valid counts as
  off; when it submits a request, that value is the one it submits.
\<close>

theorem low_data_expected_rule:
  "low_data (binder_devmon_ds_io_update_low_data self) =
     (\<not> (connman_valid (connman self) \<and> connman_tethering (connman self)) \<and>
      \<not> (charger_valid (charger self) \<and> charger_state (charger self) = MCE_CHARGER_ON) \<and>
      \<not> (display_valid (display self) \<and>
          display_state (display self) \<noteq> MCE_DISPLAY_STATE_OFF)) \<and>
   sent_states RADIO_DEVICE_STATE_LOW_DATA_EXPECTED
       (client_log (client (binder_devmon_ds_io_update_low_data self))) =
     sent_states RADIO_DEVICE_STATE_LOW_DATA_EXPECTED (client_log (client self)) @
       (if low_data_supported self \<and>
           low_data self \<noteq> low_data (binder_devmon_ds_io_update_low_data self)
        then [low_data (binder_devmon_ds_io_update_low_data self)] else [])"
  by (auto simp: update_low_data_emit emit_low_log ds_predicates split: option.splits)

theorem low_data_expected_rule_witness:
  "low_data (binder_devmon_ds_io_update_low_data
      (binder_devmon_ds_start_io batman_sample
         (ds_sample True MCE_CHARGER_OFF MCE_DISPLAY_STATE_OFF) client_sample slot_sample no_watch
       \<lparr>connman := \<lparr>connman_valid = False, connman_tethering = True\<rparr>\<rparr>)) \<and>
   sent_states RADIO_DEVICE_STATE_LOW_DATA_EXPECTED
     (client_log (client (binder_devmon_ds_io_update_low_data
      (binder_devmon_ds_start_io batman_sample
         (ds_sample True MCE_CHARGER_OFF MCE_DISPLAY_STATE_OFF) client_sample slot_sample no_watch
       \<lparr>connman := \<lparr>connman_valid = False, connman_tethering = True\<rparr>\<rparr>)))) = [True]"
  using low_data_expected_rule [of
      "binder_devmon_ds_start_io batman_sample
         (ds_sample True MCE_CHARGER_OFF MCE_DISPLAY_STATE_OFF) client_sample slot_sample no_watch
       \<lparr>connman := \<lparr>connman_valid = False, connman_tethering = True\<rparr>\<rparr>"]
  by (simp add: sample_defs ds_source_defs env_defs)

text \<open>
  C10. In the inotify handler of the IF variant \<open>charging\<close> is computed from
  \<open>battery_state\<close>, which is -1 throughout, so (the two batman constants it is
  compared with not being -1) the handler, when it gets past the channel checks, hands
  over the short interval exactly when the screen file starts with \<open>yes\<close>, and the
  value of \<open>get_battery_state\<close> has no influence on anything it does.
\<close>

theorem if_fallback_interval:
  assumes "BATMAN_CHARGING bw \<noteq> - 1" and "BATMAN_FULLY_CHARGED bw \<noteq> - 1"
  shows
  "handle_batman_inotify_events_if bw channel io self =
     (if channel \<and> (io_condition_failed io \<or> io_read_error io) then
        (G_SOURCE_REMOVE, self\<lparr>if_batman_watch_source := 0\<rparr>)
      else if channel \<and> io_bytes_read io = 0 then (G_SOURCE_CONTINUE, self)
      else (G_SOURCE_CONTINUE,
            self\<lparr>if_slot := ofono_slot_set_cell_info_update_interval (if_slot self)
              (if \<exists>content. io_screen_file io = Some content \<and> take 3 content = ''yes''
               then if_cell_info_interval_short_ms self
               else if_cell_info_interval_long_ms self)\<rparr>)) \<and>
   handle_batman_inotify_events_if bw channel (io\<lparr>io_battery_state := b\<rparr>) self =
     handle_batman_inotify_events_if bw channel io self"
  using assms
  by (auto simp: handle_batman_inotify_events_if_def batman_read_screen_yes Let_def)

theorem if_fallback_interval_witness:
  "BATMAN_CHARGING batman_sample \<noteq> - 1 \<and> BATMAN_FULLY_CHARGED batman_sample \<noteq> - 1 \<and>
   slot_intervals (if_slot (snd (handle_batman_inotify_events_if batman_sample True
      (io_sample ''no'' (BATMAN_CHARGING batman_sample))
      (binder_devmon_if_start_io batman_sample (if_sample MCE_CHARGER_ON MCE_DISPLAY_STATE_ON)
         client_sample slot_sample no_watch)))) = [2000, 30000] \<and>
   slot_intervals (if_slot (snd (handle_batman_inotify_events_if batman_sample True
      (io_sample ''yes'' (BATMAN_DISCHARGING batman_sample))
      (binder_devmon_if_start_io batman_sample (if_sample MCE_CHARGER_OFF MCE_DISPLAY_STATE_OFF)
         client_sample slot_sample no_watch)))) = [30000, 2000]"
proof -
  have c: "BATMAN_CHARGING batman_sample \<noteq> - 1" and f: "BATMAN_FULLY_CHARGED batman_sample \<noteq> - 1"
    by (simp_all add: batman_sample_def)
  from if_fallback_interval [OF c f, of True "io_sample ''no'' (BATMAN_CHARGING batman_sample)"
      "binder_devmon_if_start_io batman_sample (if_sample MCE_CHARGER_ON MCE_DISPLAY_STATE_ON)
         client_sample slot_sample no_watch" 0]
    if_fallback_interval [OF c f, of True "io_sample ''yes'' (BATMAN_DISCHARGING batman_sample)"
      "binder_devmon_if_start_io batman_sample (if_sample MCE_CHARGER_OFF MCE_DISPLAY_STATE_OFF)
         client_sample slot_sample no_watch" 0]
  show ?thesis
    by (simp add: sample_defs if_source_defs env_defs)
qed

section \<open>The indication filter request\<close>

lemma set_filter_fields [simp]:
  "if_req (binder_devmon_if_io_set_indication_filter s) =
     (if if_ind_filter_supported s then Some (client_next (if_client s)) else if_req s)"
  "if_ind_filter_supported (binder_devmon_if_io_set_indication_filter s) =
     if_ind_filter_supported s"
  "if_slot (binder_devmon_if_io_set_indication_filter s) = if_slot s"
  "if_display_on (binder_devmon_if_io_set_indication_filter s) = if_display_on s"
  "if_batman_watch_source (binder_devmon_if_io_set_indication_filter s) =
     if_batman_watch_source s"
  by (auto simp: binder_devmon_if_io_set_indication_filter_def radio_defs Let_def
      split: prod.splits option.splits)

lemma set_filter_log:
  "client_log (if_client (binder_devmon_if_io_set_indication_filter s)) =
     client_log (if_client s) @
       (if if_ind_filter_supported s
        then (case if_req s of None \<Rightarrow> [] | Some r \<Rightarrow> [Drop r]) @
          [if client_interface (if_client s) < RADIO_INTERFACE_1_2 then
             Submit (client_next (if_client s)) RADIO_REQ_SET_INDICATION_FILTER
               (Indication_filter_args
                  (if if_display_on s then RADIO_IND_FILTER_ALL
                   else RADIO_IND_FILTER_DATA_CALL_DORMANCY))
           else if client_interface (if_client s) < RADIO_INTERFACE_1_5 then
             Submit (client_next (if_client s)) RADIO_REQ_SET_INDICATION_FILTER_1_2
               (Indication_filter_args
                  (if if_display_on s then RADIO_IND_FILTER_ALL_1_2
                   else RADIO_IND_FILTER_DATA_CALL_DORMANCY))
           else
             Submit (client_next (if_client s)) RADIO_REQ_SET_INDICATION_FILTER_1_5
               (Indication_filter_args
                  (if if_display_on s then RADIO_IND_FILTER_ALL_1_5
                   else RADIO_IND_FILTER_DATA_CALL_DORMANCY))]
        else [])"
  by (auto simp: binder_devmon_if_io_set_indication_filter_def radio_defs Let_def
      split: prod.splits option.splits)

lemma set_filter_reqs:
  "filter_reqs (client_log (if_client (binder_devmon_if_io_set_indication_filter s))) =
     filter_reqs (client_log (if_client s)) @
       (if if_ind_filter_supported s then [client_next (if_client s)] else [])"
  by (auto simp: set_filter_log split: option.splits)

lemma set_filter_pending:
  "pending_of cb (if_client (binder_devmon_if_io_set_indication_filter s)) =
     (if if_ind_filter_supported s
      then (case if_req s of None \<Rightarrow> pending_of cb (if_client s)
            | Some r \<Rightarrow> filter (\<lambda>x. x \<noteq> r) (pending_of cb (if_client s))) @
           (if cb = Indication_filter_sent \<and>
               client_next (if_client s) \<notin> set (client_fail (if_client s))
            then [client_next (if_client s)] else [])
      else pending_of cb (if_client s))"
  by (auto simp: binder_devmon_if_io_set_indication_filter_def radio_defs Let_def
      pending_of_def pending_of_filter split: prod.splits option.splits)

lemma set_cell_info_if_fields [simp]:
  "if_client (binder_devmon_if_io_set_cell_info_update_interval s) = if_client s"
  "if_req (binder_devmon_if_io_set_cell_info_update_interval s) = if_req s"
  "if_ind_filter_supported (binder_devmon_if_io_set_cell_info_update_interval s) =
     if_ind_filter_supported s"
  "if_display_on (binder_devmon_if_io_set_cell_info_update_interval s) = if_display_on s"
  by (simp_all add: binder_devmon_if_io_set_cell_info_update_interval_def)

lemma handler_if_fields [simp]:
  "if_client (snd (handle_batman_inotify_events_if bw ch io s)) = if_client s"
  "if_req (snd (handle_batman_inotify_events_if bw ch io s)) = if_req s"
  "if_ind_filter_supported (snd (handle_batman_inotify_events_if bw ch io s)) =
     if_ind_filter_supported s"
  by (simp_all add: handle_batman_inotify_events_if_def Let_def)

lemma init_watch_if_fields [simp]:
  "if_client (binder_devmon_if_io_init_batman_watch bw ini s) = if_client s"
  "if_req (binder_devmon_if_io_init_batman_watch bw ini s) = if_req s"
  "if_ind_filter_supported (binder_devmon_if_io_init_batman_watch bw ini s) =
     if_ind_filter_supported s"
  by (simp_all add: binder_devmon_if_io_init_batman_watch_def Let_def)

lemma if_pending_inv_set_filter:
  "if_pending_inv s \<Longrightarrow> if_pending_inv (binder_devmon_if_io_set_indication_filter s)"
  unfolding if_pending_inv_def
  by (auto simp: set_filter_reqs set_filter_pending map_Some_single
      split: option.splits if_splits)

lemma if_pending_inv_cong:
  "if_client s' = if_client s \<Longrightarrow> if_req s' = if_req s \<Longrightarrow>
   if_pending_inv s' = if_pending_inv s"
  by (simp add: if_pending_inv_def)

lemma if_pending_inv_completed:
  "if_pending_inv s \<Longrightarrow> if_pending_inv (if_step bw (Radio_completed req st resp err) s)"
proof -
  assume inv: "if_pending_inv s"
  show ?thesis
  proof (cases "map_of (client_pending (if_client s)) req")
    case None
    with inv show ?thesis by (simp add: radio_deliver_def)
  next
    case (Some cb)
    from map_of_pending[OF Some] have mem: "req \<in> set (pending_of cb (if_client s))" .
    with inv Some show ?thesis
      unfolding if_pending_inv_def
      by (cases cb)
        (auto simp: radio_deliver_def binder_devmon_if_io_indication_filter_sent_def
          pending_of_drop map_Some_single Let_def split: if_splits)
  qed
qed

lemma if_pending_inv_step: "if_pending_inv s \<Longrightarrow> if_pending_inv (if_step bw e s)"
proof (cases e)
  case (Radio_completed req st resp err)
  then show "if_pending_inv s \<Longrightarrow> ?thesis" by (simp only: if_pending_inv_completed)
next
  case (Display_changed d)
  then show "if_pending_inv s \<Longrightarrow> ?thesis"
    using if_pending_inv_set_filter
      [of "s\<lparr>if_display := d, if_display_on := binder_devmon_if_display_on d\<rparr>"]
    by (auto simp: binder_devmon_if_io_display_cb_def Let_def if_pending_inv_def)
qed (simp_all add: binder_devmon_if_io_battery_cb_def binder_devmon_if_io_charger_cb_def
      if_pending_inv_def)

lemma if_pending_inv_run: "if_pending_inv s \<Longrightarrow> if_pending_inv (if_run bw es s)"
  by (induction es arbitrary: s) (simp_all add: if_pending_inv_step)

lemma if_pending_inv_start:
  "client_pending cl = [] \<Longrightarrow> client_log cl = [] \<Longrightarrow>
   if_pending_inv (binder_devmon_if_start_io bw impl cl sl ini)"
  unfolding binder_devmon_if_start_io_def Let_def
  apply (subst if_pending_inv_cong [where s = "binder_devmon_if_io_set_indication_filter _"])
    apply simp
   apply simp
  apply (rule if_pending_inv_set_filter)
  apply (simp add: if_pending_inv_def pending_of_def)
  done

lemma if_unsupported_step:
  "\<not> if_ind_filter_supported s \<Longrightarrow>
   \<not> if_ind_filter_supported (if_step bw e s) \<and>
   filter_reqs (client_log (if_client (if_step bw e s))) = filter_reqs (client_log (if_client s))"
  by (cases e)
    (auto simp: binder_devmon_if_io_battery_cb_def binder_devmon_if_io_charger_cb_def
      binder_devmon_if_io_display_cb_def set_filter_reqs radio_deliver_def
      binder_devmon_if_io_indication_filter_sent_def Let_def
      split: option.splits completion.splits)

lemma if_unsupported_run:
  "\<not> if_ind_filter_supported s \<Longrightarrow>
   \<not> if_ind_filter_supported (if_run bw es s) \<and>
   filter_reqs (client_log (if_client (if_run bw es s))) = filter_reqs (client_log (if_client s))"
proof (induction es arbitrary: s)
  case Nil
  then show ?case by simp
next
  case (Cons e es)
  from if_unsupported_step[OF Cons.prems, of bw e] Cons.IH[of "if_step bw e s"]
  show ?case by simp
qed

lemma start_supported:
  "low_data_supported (binder_devmon_ds_start_io bw ds cl sl ini) \<and>
   charging_supported (binder_devmon_ds_start_io bw ds cl sl ini) \<and>
   if_ind_filter_supported (binder_devmon_if_start_io bw impl cl' sl' ini')"
  by (simp add: binder_devmon_ds_start_io_def binder_devmon_ds_io_init_batman_watch_def
      update_low_data_emit update_charging_emit set_cell_info_ds handler_ds_emit
      binder_devmon_if_start_io_def Let_def)

section \<open>Unsupported requests\<close>

text \<open>
  C3. A session starts with all three flags true. Once the transport delivers, for a
  request in flight, a completion with status OK, the expected response code and the
  error REQUEST_NOT_SUPPORTED, the flag of that kind is false after every further
  sequence of events, and over that sequence no request of the kind is submitted: the
  requests of the kind in the client's log stay the ones that were there before.
\<close>

theorem sticky_unsupported:
  "low_data_supported (binder_devmon_ds_start_io bw ds cl sl ini) \<and>
   charging_supported (binder_devmon_ds_start_io bw ds cl sl ini) \<and>
   if_ind_filter_supported (binder_devmon_if_start_io bw impl cl sl ini) \<and>
   (map_of (client_pending (client s)) r = Some Low_data_state_sent \<longrightarrow>
      \<not> low_data_supported
          (ds_run bw es (ds_step bw (Radio_completed r RADIO_TX_STATUS_OK
             RADIO_RESP_SEND_DEVICE_STATE RADIO_ERROR_REQUEST_NOT_SUPPORTED) s)) \<and>
      sent_reqs RADIO_DEVICE_STATE_LOW_DATA_EXPECTED
          (client_log (client (ds_run bw es (ds_step bw (Radio_completed r RADIO_TX_STATUS_OK
             RADIO_RESP_SEND_DEVICE_STATE RADIO_ERROR_REQUEST_NOT_SUPPORTED) s)))) =
        sent_reqs RADIO_DEVICE_STATE_LOW_DATA_EXPECTED (client_log (client s))) \<and>
   (map_of (client_pending (client s')) r' = Some Charging_state_sent \<longrightarrow>
      \<not> charging_supported
          (ds_run bw es (ds_step bw (Radio_completed r' RADIO_TX_STATUS_OK
             RADIO_RESP_SEND_DEVICE_STATE RADIO_ERROR_REQUEST_NOT_SUPPORTED) s')) \<and>
      sent_reqs RADIO_DEVICE_STATE_CHARGING_STATE
          (client_log (client (ds_run bw es (ds_step bw (Radio_completed r' RADIO_TX_STATUS_OK
             RADIO_RESP_SEND_DEVICE_STATE RADIO_ERROR_REQUEST_NOT_SUPPORTED) s')))) =
        sent_reqs RADIO_DEVICE_STATE_CHARGING_STATE (client_log (client s'))) \<and>
   (map_of (client_pending (if_client t)) r'' = Some Indication_filter_sent \<longrightarrow>
      \<not> if_ind_filter_supported
          (if_run bw es (if_step bw (Radio_completed r'' RADIO_TX_STATUS_OK
             RADIO_RESP_SET_INDICATION_FILTER RADIO_ERROR_REQUEST_NOT_SUPPORTED) t)) \<and>
      filter_reqs
          (client_log (if_client (if_run bw es (if_step bw (Radio_completed r''
             RADIO_TX_STATUS_OK RADIO_RESP_SET_INDICATION_FILTER
             RADIO_ERROR_REQUEST_NOT_SUPPORTED) t)))) =
        filter_reqs (client_log (if_client t)))"
proof -
  let ?e = "\<lambda>q. Radio_completed q RADIO_TX_STATUS_OK RADIO_RESP_SEND_DEVICE_STATE
              RADIO_ERROR_REQUEST_NOT_SUPPORTED"
  let ?f = "Radio_completed r'' RADIO_TX_STATUS_OK RADIO_RESP_SET_INDICATION_FILTER
              RADIO_ERROR_REQUEST_NOT_SUPPORTED"
  have low: "\<not> low_data_supported (ds_run bw es (ds_step bw (?e r) s)) \<and>
      sent_reqs RADIO_DEVICE_STATE_LOW_DATA_EXPECTED
          (client_log (client (ds_run bw es (ds_step bw (?e r) s)))) =
        sent_reqs RADIO_DEVICE_STATE_LOW_DATA_EXPECTED (client_log (client s))"
    if p: "map_of (client_pending (client s)) r = Some Low_data_state_sent"
  proof -
    from p have off: "\<not> low_data_supported (ds_step bw (?e r) s)"
      and same: "client_log (client (ds_step bw (?e r) s)) = client_log (client s)"
      by (simp_all add: radio_deliver_def binder_devmon_ds_io_low_data_state_sent_def)
    from ds_low_unsupported_run [OF off, of bw es] same show ?thesis by simp
  qed
  have chg: "\<not> charging_supported (ds_run bw es (ds_step bw (?e r') s')) \<and>
      sent_reqs RADIO_DEVICE_STATE_CHARGING_STATE
          (client_log (client (ds_run bw es (ds_step bw (?e r') s')))) =
        sent_reqs RADIO_DEVICE_STATE_CHARGING_STATE (client_log (client s'))"
    if p: "map_of (client_pending (client s')) r' = Some Charging_state_sent"
  proof -
    from p have off: "\<not> charging_supported (ds_step bw (?e r') s')"
      and same: "client_log (client (ds_step bw (?e r') s')) = client_log (client s')"
      by (simp_all add: radio_deliver_def binder_devmon_ds_io_charging_state_sent_def)
    from ds_chg_unsupported_run [OF off, of bw es] same show ?thesis by simp
  qed
  have ind: "\<not> if_ind_filter_supported (if_run bw es (if_step bw ?f t)) \<and>
      filter_reqs (client_log (if_client (if_run bw es (if_step bw ?f t)))) =
        filter_reqs (client_log (if_client t))"
    if p: "map_of (client_pending (if_client t)) r'' = Some Indication_filter_sent"
  proof -
    from p have off: "\<not> if_ind_filter_supported (if_step bw ?f t)"
      and same: "client_log (if_client (if_step bw ?f t)) = client_log (if_client t)"
      by (simp_all add: radio_deliver_def binder_devmon_if_io_indication_filter_sent_def)
    from if_unsupported_run [OF off, of bw es] same show ?thesis by simp
  qed
  from start_supported [of bw ds cl sl ini impl cl sl ini] low chg ind
  show ?thesis by blast
qed

theorem sticky_unsupported_witness:
  "map_of (client_pending (client
      (binder_devmon_ds_start_io batman_sample
         (ds_sample False MCE_CHARGER_OFF MCE_DISPLAY_STATE_OFF)
         client_sample slot_sample no_watch))) 0 = Some Low_data_state_sent \<and>
   map_of (client_pending (client
      (binder_devmon_ds_start_io batman_sample
         (ds_sample False MCE_CHARGER_ON MCE_DISPLAY_STATE_OFF)
         client_sample slot_sample no_watch))) 0 = Some Charging_state_sent \<and>
   map_of (client_pending (if_client
      (binder_devmon_if_start_io batman_sample
         (if_sample MCE_CHARGER_OFF MCE_DISPLAY_STATE_OFF)
         client_sample slot_sample no_watch))) 0 = Some Indication_filter_sent \<and>
   sent_reqs RADIO_DEVICE_STATE_LOW_DATA_EXPECTED
     (client_log (client (ds_run batman_sample
        [Display_changed \<lparr>display_valid = True, display_state = MCE_DISPLAY_STATE_ON\<rparr>,
         Charger_changed \<lparr>charger_valid = True, charger_state = MCE_CHARGER_ON\<rparr>,
         Display_changed \<lparr>display_valid = True, display_state = MCE_DISPLAY_STATE_OFF\<rparr>,
         Charger_changed \<lparr>charger_valid = True, charger_state = MCE_CHARGER_OFF\<rparr>]
        (ds_step batman_sample (Radio_completed 0 RADIO_TX_STATUS_OK
             RADIO_RESP_SEND_DEVICE_STATE RADIO_ERROR_REQUEST_NOT_SUPPORTED)
           (binder_devmon_ds_start_io batman_sample
              (ds_sample False MCE_CHARGER_OFF MCE_DISPLAY_STATE_OFF)
              client_sample slot_sample no_watch))))) = [0] \<and>
   sent_reqs RADIO_DEVICE_STATE_CHARGING_STATE
     (client_log (client (ds_run batman_sample
        [Display_changed \<lparr>display_valid = True, display_state = MCE_DISPLAY_STATE_ON\<rparr>,
         Charger_changed \<lparr>charger_valid = True, charger_state = MCE_CHARGER_ON\<rparr>,
         Display_changed \<lparr>display_valid = True, display_state = MCE_DISPLAY_STATE_OFF\<rparr>,
         Charger_changed \<lparr>charger_valid = True, charger_state = MCE_CHARGER_OFF\<rparr>]
        (ds_step batman_sample (Radio_completed 0 RADIO_TX_STATUS_OK
             RADIO_RESP_SEND_DEVICE_STATE RADIO_ERROR_REQUEST_NOT_SUPPORTED)
           (binder_devmon_ds_start_io batman_sample
              (ds_sample False MCE_CHARGER_ON MCE_DISPLAY_STATE_OFF)
              client_sample slot_sample no_watch))))) = [0] \<and>
   filter_reqs
     (client_log (if_client (if_run batman_sample
        [Display_changed \<lparr>display_valid = True, display_state = MCE_DISPLAY_STATE_ON\<rparr>,
         Charger_changed \<lparr>charger_valid = True, charger_state = MCE_CHARGER_ON\<rparr>,
         Display_changed \<lparr>display_valid = True, display_state = MCE_DISPLAY_STATE_OFF\<rparr>,
         Charger_changed \<lparr>charger_valid = True, charger_state = MCE_CHARGER_OFF\<rparr>]
        (if_step batman_sample (Radio_completed 0 RADIO_TX_STATUS_OK
             RADIO_RESP_SET_INDICATION_FILTER RADIO_ERROR_REQUEST_NOT_SUPPORTED)
           (binder_devmon_if_start_io batman_sample
              (if_sample MCE_CHARGER_OFF MCE_DISPLAY_STATE_OFF)
              client_sample slot_sample no_watch))))) = [0]"
proof -
  have a: "map_of (client_pending (client
      (binder_devmon_ds_start_io batman_sample
         (ds_sample False MCE_CHARGER_OFF MCE_DISPLAY_STATE_OFF)
         client_sample slot_sample no_watch))) 0 = Some Low_data_state_sent"
    and a': "sent_reqs RADIO_DEVICE_STATE_LOW_DATA_EXPECTED (client_log (client
      (binder_devmon_ds_start_io batman_sample
         (ds_sample False MCE_CHARGER_OFF MCE_DISPLAY_STATE_OFF)
         client_sample slot_sample no_watch))) = [0]"
    by (simp_all add: sample_defs ds_source_defs env_defs)
  have b: "map_of (client_pending (client
      (binder_devmon_ds_start_io batman_sample
         (ds_sample False MCE_CHARGER_ON MCE_DISPLAY_STATE_OFF)
         client_sample slot_sample no_watch))) 0 = Some Charging_state_sent"
    and b': "sent_reqs RADIO_DEVICE_STATE_CHARGING_STATE (client_log (client
      (binder_devmon_ds_start_io batman_sample
         (ds_sample False MCE_CHARGER_ON MCE_DISPLAY_STATE_OFF)
         client_sample slot_sample no_watch))) = [0]"
    by (simp_all add: sample_defs ds_source_defs env_defs)
  have c: "map_of (client_pending (if_client
      (binder_devmon_if_start_io batman_sample
         (if_sample MCE_CHARGER_OFF MCE_DISPLAY_STATE_OFF)
         client_sample slot_sample no_watch))) 0 = Some Indication_filter_sent"
    and c': "filter_reqs (client_log (if_client
      (binder_devmon_if_start_io batman_sample
         (if_sample MCE_CHARGER_OFF MCE_DISPLAY_STATE_OFF)
         client_sample slot_sample no_watch))) = [0]"
    by (simp_all add: sample_defs if_source_defs env_defs)
  from sticky_unsupported [of batman_sample _ client_sample slot_sample no_watch _
      "binder_devmon_ds_start_io batman_sample
         (ds_sample False MCE_CHARGER_OFF MCE_DISPLAY_STATE_OFF)
         client_sample slot_sample no_watch" 0
      "[Display_changed \<lparr>display_valid = True, display_state = MCE_DISPLAY_STATE_ON\<rparr>,
         Charger_changed \<lparr>charger_valid = True, charger_state = MCE_CHARGER_ON\<rparr>,
         Display_changed \<lparr>display_valid = True, display_state = MCE_DISPLAY_STATE_OFF\<rparr>,
         Charger_changed \<lparr>charger_valid = True, charger_state = MCE_CHARGER_OFF\<rparr>]"
      "binder_devmon_ds_start_io batman_sample
         (ds_sample False MCE_CHARGER_ON MCE_DISPLAY_STATE_OFF)
         client_sample slot_sample no_watch" 0
      "binder_devmon_if_start_io batman_sample
         (if_sample MCE_CHARGER_OFF MCE_DISPLAY_STATE_OFF)
         client_sample slot_sample no_watch" 0]
    a a' b b' c c'
  show ?thesis by simp
qed

lemma pending_single:
  "xs = [] \<or> map Some xs = [y] \<Longrightarrow> length xs \<le> Suc 0 \<and> set xs \<subseteq> set_option y"
  by (auto simp: map_Some_single)


section \<open>Completions and the pending slot\<close>







section \<open>One request in flight\<close>

text \<open>
  C8. Each kind has one slot, and in every state a session reaches at most one request of
  the kind is in flight, it is the stored one, and a stored request is the last request of
  its kind that was submitted. Each of the three sending functions, when it sends, first
  drops the stored request (if there is one) and then submits a new one: the log grows by
  the drop followed by the submit, and the slot then holds the new request (in the DS
  variant nothing, when the transport refused the submit).
\<close>

theorem one_in_flight:
  assumes "client_pending cl = []" and "client_log cl = []"
    and "s = ds_run bw es (binder_devmon_ds_start_io bw ds cl sl ini)"
    and "t = if_run bw es' (binder_devmon_if_start_io bw impl cl sl ini')"
  shows
  "length (pending_of Low_data_state_sent (client s)) \<le> 1 \<and>
   set (pending_of Low_data_state_sent (client s)) \<subseteq> set_option (low_data_req s) \<and>
   (low_data_req s = None \<or>
    low_data_req s =
      last_option (sent_reqs RADIO_DEVICE_STATE_LOW_DATA_EXPECTED (client_log (client s)))) \<and>
   length (pending_of Charging_state_sent (client s)) \<le> 1 \<and>
   set (pending_of Charging_state_sent (client s)) \<subseteq> set_option (charging_req s) \<and>
   (charging_req s = None \<or>
    charging_req s =
      last_option (sent_reqs RADIO_DEVICE_STATE_CHARGING_STATE (client_log (client s)))) \<and>
   length (pending_of Indication_filter_sent (if_client t)) \<le> 1 \<and>
   set (pending_of Indication_filter_sent (if_client t)) \<subseteq> set_option (if_req t) \<and>
   (if_req t = None \<or> if_req t = last_option (filter_reqs (client_log (if_client t)))) \<and>
   client_log (client (binder_devmon_ds_io_update_low_data u)) =
     client_log (client u) @
       (if low_data_supported u \<and> low_data u \<noteq> low_data (binder_devmon_ds_io_update_low_data u)
        then (case low_data_req u of None \<Rightarrow> [] | Some r \<Rightarrow> [Drop r]) @
             [Submit (client_next (client u)) RADIO_REQ_SEND_DEVICE_STATE
                (Device_state_args RADIO_DEVICE_STATE_LOW_DATA_EXPECTED
                   (low_data (binder_devmon_ds_io_update_low_data u)))]
        else []) \<and>
   low_data_req (binder_devmon_ds_io_update_low_data u) =
     (if low_data_supported u \<and> low_data u \<noteq> low_data (binder_devmon_ds_io_update_low_data u)
      then (if client_next (client u) \<in> set (client_fail (client u)) then None
            else Some (client_next (client u)))
      else low_data_req u) \<and>
   client_log (client (binder_devmon_ds_io_update_charging u)) =
     client_log (client u) @
       (if charging_supported u \<and> charging u \<noteq> charging (binder_devmon_ds_io_update_charging u)
        then (case charging_req u of None \<Rightarrow> [] | Some r \<Rightarrow> [Drop r]) @
             [Submit (client_next (client u)) RADIO_REQ_SEND_DEVICE_STATE
                (Device_state_args RADIO_DEVICE_STATE_CHARGING_STATE
                   (charging (binder_devmon_ds_io_update_charging u)))]
        else []) \<and>
   charging_req (binder_devmon_ds_io_update_charging u) =
     (if charging_supported u \<and> charging u \<noteq> charging (binder_devmon_ds_io_update_charging u)
      then (if client_next (client u) \<in> set (client_fail (client u)) then None
            else Some (client_next (client u)))
      else charging_req u) \<and>
   (\<exists>code val.
      client_log (if_client (binder_devmon_if_io_set_indication_filter v)) =
        client_log (if_client v) @
          (if if_ind_filter_supported v
           then (case if_req v of None \<Rightarrow> [] | Some r \<Rightarrow> [Drop r]) @
                [Submit (client_next (if_client v)) code (Indication_filter_args val)]
           else [])) \<and>
   if_req (binder_devmon_if_io_set_indication_filter v) =
     (if if_ind_filter_supported v then Some (client_next (if_client v)) else if_req v)"
proof -
  have ds: "ds_pending_inv s"
    unfolding assms(3) by (rule ds_pending_inv_run) (rule ds_pending_inv_start [OF assms(1,2)])
  have "if": "if_pending_inv t"
    unfolding assms(4) by (rule if_pending_inv_run) (rule if_pending_inv_start [OF assms(1,2)])
  from ds have dl: "pending_of Low_data_state_sent (client s) = [] \<or>
      map Some (pending_of Low_data_state_sent (client s)) = [low_data_req s]"
    and dc: "pending_of Charging_state_sent (client s) = [] \<or>
      map Some (pending_of Charging_state_sent (client s)) = [charging_req s]"
    and dl': "low_data_req s = None \<or> low_data_req s =
      last_option (sent_reqs RADIO_DEVICE_STATE_LOW_DATA_EXPECTED (client_log (client s)))"
    and dc': "charging_req s = None \<or> charging_req s =
      last_option (sent_reqs RADIO_DEVICE_STATE_CHARGING_STATE (client_log (client s)))"
    by (simp_all add: ds_pending_inv_def)
  from "if" have di: "pending_of Indication_filter_sent (if_client t) = [] \<or>
      map Some (pending_of Indication_filter_sent (if_client t)) = [if_req t]"
    and di': "if_req t = None \<or> if_req t = last_option (filter_reqs (client_log (if_client t)))"
    by (simp_all add: if_pending_inv_def)
  note a = pending_single [OF dl, simplified One_nat_def [symmetric]]
    pending_single [OF dc, simplified One_nat_def [symmetric]]
    pending_single [OF di, simplified One_nat_def [symmetric]]
  have low: "client_log (client (binder_devmon_ds_io_update_low_data u)) =
     client_log (client u) @
       (if low_data_supported u \<and> low_data u \<noteq> low_data (binder_devmon_ds_io_update_low_data u)
        then (case low_data_req u of None \<Rightarrow> [] | Some r \<Rightarrow> [Drop r]) @
             [Submit (client_next (client u)) RADIO_REQ_SEND_DEVICE_STATE
                (Device_state_args RADIO_DEVICE_STATE_LOW_DATA_EXPECTED
                   (low_data (binder_devmon_ds_io_update_low_data u)))]
        else [])"
    by (auto simp: update_low_data_emit emit_low_log)
  have low': "low_data_req (binder_devmon_ds_io_update_low_data u) =
     (if low_data_supported u \<and> low_data u \<noteq> low_data (binder_devmon_ds_io_update_low_data u)
      then (if client_next (client u) \<in> set (client_fail (client u)) then None
            else Some (client_next (client u)))
      else low_data_req u)"
    by (auto simp: update_low_data_emit)
  have chg: "client_log (client (binder_devmon_ds_io_update_charging u)) =
     client_log (client u) @
       (if charging_supported u \<and> charging u \<noteq> charging (binder_devmon_ds_io_update_charging u)
        then (case charging_req u of None \<Rightarrow> [] | Some r \<Rightarrow> [Drop r]) @
             [Submit (client_next (client u)) RADIO_REQ_SEND_DEVICE_STATE
                (Device_state_args RADIO_DEVICE_STATE_CHARGING_STATE
                   (charging (binder_devmon_ds_io_update_charging u)))]
        else [])"
    by (auto simp: update_charging_emit emit_chg_log)
  have chg': "charging_req (binder_devmon_ds_io_update_charging u) =
     (if charging_supported u \<and> charging u \<noteq> charging (binder_devmon_ds_io_update_charging u)
      then (if client_next (client u) \<in> set (client_fail (client u)) then None
            else Some (client_next (client u)))
      else charging_req u)"
    by (auto simp: update_charging_emit)
  have ind: "\<exists>code val.
      client_log (if_client (binder_devmon_if_io_set_indication_filter v)) =
        client_log (if_client v) @
          (if if_ind_filter_supported v
           then (case if_req v of None \<Rightarrow> [] | Some r \<Rightarrow> [Drop r]) @
                [Submit (client_next (if_client v)) code (Indication_filter_args val)]
           else [])"
    unfolding set_filter_log by (cases "if_ind_filter_supported v") auto
  have ind': "if_req (binder_devmon_if_io_set_indication_filter v) =
     (if if_ind_filter_supported v then Some (client_next (if_client v)) else if_req v)"
    by simp
  show ?thesis
    apply (intro conjI)
                  apply (rule a(1) [THEN conjunct1])
                 apply (rule a(1) [THEN conjunct2])
                apply (rule dl')
               apply (rule a(2) [THEN conjunct1])
              apply (rule a(2) [THEN conjunct2])
             apply (rule dc')
            apply (rule a(3) [THEN conjunct1])
           apply (rule a(3) [THEN conjunct2])
          apply (rule di')
         apply (rule low)
        apply (rule low')
       apply (rule chg)
      apply (rule chg')
     apply (rule ind)
    apply (rule ind')
    done
qed

theorem one_in_flight_witness:
  "client_pending client_sample = [] \<and> client_log client_sample = [] \<and>
   length (pending_of Low_data_state_sent (client (ds_run batman_sample
      [Charger_changed \<lparr>charger_valid = True, charger_state = MCE_CHARGER_ON\<rparr>]
      (binder_devmon_ds_start_io batman_sample
         (ds_sample False MCE_CHARGER_OFF MCE_DISPLAY_STATE_OFF)
         client_sample slot_sample no_watch)))) \<le> 1 \<and>
   set (pending_of Low_data_state_sent (client (ds_run batman_sample
      [Charger_changed \<lparr>charger_valid = True, charger_state = MCE_CHARGER_ON\<rparr>]
      (binder_devmon_ds_start_io batman_sample
         (ds_sample False MCE_CHARGER_OFF MCE_DISPLAY_STATE_OFF)
         client_sample slot_sample no_watch)))) \<subseteq>
     set_option (low_data_req (ds_run batman_sample
      [Charger_changed \<lparr>charger_valid = True, charger_state = MCE_CHARGER_ON\<rparr>]
      (binder_devmon_ds_start_io batman_sample
         (ds_sample False MCE_CHARGER_OFF MCE_DISPLAY_STATE_OFF)
         client_sample slot_sample no_watch))) \<and>
   client_log (client (ds_run batman_sample
      [Charger_changed \<lparr>charger_valid = True, charger_state = MCE_CHARGER_ON\<rparr>]
      (binder_devmon_ds_start_io batman_sample
         (ds_sample False MCE_CHARGER_OFF MCE_DISPLAY_STATE_OFF)
         client_sample slot_sample no_watch))) =
     [Submit 0 RADIO_REQ_SEND_DEVICE_STATE
        (Device_state_args RADIO_DEVICE_STATE_LOW_DATA_EXPECTED True),
      Drop 0,
      Submit 1 RADIO_REQ_SEND_DEVICE_STATE
        (Device_state_args RADIO_DEVICE_STATE_LOW_DATA_EXPECTED False),
      Submit 2 RADIO_REQ_SEND_DEVICE_STATE
        (Device_state_args RADIO_DEVICE_STATE_CHARGING_STATE True)] \<and>
   client_pending (client (ds_run batman_sample
      [Charger_changed \<lparr>charger_valid = True, charger_state = MCE_CHARGER_ON\<rparr>]
      (binder_devmon_ds_start_io batman_sample
         (ds_sample False MCE_CHARGER_OFF MCE_DISPLAY_STATE_OFF)
         client_sample slot_sample no_watch))) =
     [(1, Low_data_state_sent), (2, Charging_state_sent)]"
proof -
  have p: "client_pending client_sample = []" and l: "client_log client_sample = []"
    by (simp_all add: client_sample_def)
  note inst = one_in_flight [OF p l refl refl, of batman_sample
      "[Charger_changed \<lparr>charger_valid = True, charger_state = MCE_CHARGER_ON\<rparr>]"
      "ds_sample False MCE_CHARGER_OFF MCE_DISPLAY_STATE_OFF" slot_sample no_watch]
  have ev: "client_log (client (ds_run batman_sample
      [Charger_changed \<lparr>charger_valid = True, charger_state = MCE_CHARGER_ON\<rparr>]
      (binder_devmon_ds_start_io batman_sample
         (ds_sample False MCE_CHARGER_OFF MCE_DISPLAY_STATE_OFF)
         client_sample slot_sample no_watch))) =
     [Submit 0 RADIO_REQ_SEND_DEVICE_STATE
        (Device_state_args RADIO_DEVICE_STATE_LOW_DATA_EXPECTED True),
      Drop 0,
      Submit 1 RADIO_REQ_SEND_DEVICE_STATE
        (Device_state_args RADIO_DEVICE_STATE_LOW_DATA_EXPECTED False),
      Submit 2 RADIO_REQ_SEND_DEVICE_STATE
        (Device_state_args RADIO_DEVICE_STATE_CHARGING_STATE True)]"
    and ev': "client_pending (client (ds_run batman_sample
      [Charger_changed \<lparr>charger_valid = True, charger_state = MCE_CHARGER_ON\<rparr>]
      (binder_devmon_ds_start_io batman_sample
         (ds_sample False MCE_CHARGER_OFF MCE_DISPLAY_STATE_OFF)
         client_sample slot_sample no_watch))) =
     [(1, Low_data_state_sent), (2, Charging_state_sent)]"
    by (simp_all add: sample_defs ds_source_defs env_defs)
  show ?thesis
    apply (intro conjI)
         apply (rule p)
        apply (rule l)
       apply (rule inst [THEN conjunct1])
      apply (rule inst [THEN conjunct2, THEN conjunct1])
     apply (rule ev)
    apply (rule ev')
    done
qed

section \<open>Edge-triggered sending\<close>

lemmas log_defs = sent_states_def sent_reqs_def filter_reqs_def pending_of_def last_option_def

lemma emit_sources [simp]:
  "connman (ds_emit_low_data v u) = connman u"
  "charger (ds_emit_low_data v u) = charger u"
  "display (ds_emit_low_data v u) = display u"
  "battery (ds_emit_low_data v u) = battery u"
  "connman (ds_emit_charging v u) = connman u"
  "charger (ds_emit_charging v u) = charger u"
  "display (ds_emit_charging v u) = display u"
  "battery (ds_emit_charging v u) = battery u"
  by (simp_all add: ds_emit_low_data_def ds_emit_charging_def)

lemma emit_sent_states:
  "sent_states RADIO_DEVICE_STATE_LOW_DATA_EXPECTED (client_log (client (ds_emit_low_data v u))) =
     sent_states RADIO_DEVICE_STATE_LOW_DATA_EXPECTED (client_log (client u)) @
       (if low_data_supported u \<and> v \<noteq> low_data u then [v] else [])"
  "sent_states RADIO_DEVICE_STATE_CHARGING_STATE (client_log (client (ds_emit_low_data v u))) =
     sent_states RADIO_DEVICE_STATE_CHARGING_STATE (client_log (client u))"
  "sent_states RADIO_DEVICE_STATE_CHARGING_STATE (client_log (client (ds_emit_charging v u))) =
     sent_states RADIO_DEVICE_STATE_CHARGING_STATE (client_log (client u)) @
       (if charging_supported u \<and> v \<noteq> charging u then [v] else [])"
  "sent_states RADIO_DEVICE_STATE_LOW_DATA_EXPECTED (client_log (client (ds_emit_charging v u))) =
     sent_states RADIO_DEVICE_STATE_LOW_DATA_EXPECTED (client_log (client u))"
  by (auto simp: emit_low_log emit_chg_log split: option.splits)

lemma completed_fields:
  "client_log (client (ds_step bw (Radio_completed r st resp err) u)) = client_log (client u)"
  "low_data (ds_step bw (Radio_completed r st resp err) u) = low_data u"
  "charging (ds_step bw (Radio_completed r st resp err) u) = charging u"
  by (auto simp: radio_deliver_def binder_devmon_ds_io_low_data_state_sent_def
      binder_devmon_ds_io_charging_state_sent_def Let_def
      split: option.splits completion.splits)

lemma ds_step_sent_low:
  "sent_states RADIO_DEVICE_STATE_LOW_DATA_EXPECTED (client_log (client (ds_step bw e u))) =
     sent_states RADIO_DEVICE_STATE_LOW_DATA_EXPECTED (client_log (client u)) @
       (if low_data_supported u \<and> low_data (ds_step bw e u) \<noteq> low_data u
        then [low_data (ds_step bw e u)] else [])"
proof (cases e)
  case (Radio_completed r st resp err)
  then show ?thesis by (simp only: completed_fields) simp
qed (simp_all add: binder_devmon_ds_io_connman_cb_def binder_devmon_ds_io_battery_cb_def
      binder_devmon_ds_io_charger_cb_def binder_devmon_ds_io_display_cb_def
      update_low_data_emit update_charging_emit set_cell_info_ds handler_ds_emit
      emit_sent_states)

lemma ds_step_sent_chg:
  "sent_states RADIO_DEVICE_STATE_CHARGING_STATE (client_log (client (ds_step bw e u))) =
     sent_states RADIO_DEVICE_STATE_CHARGING_STATE (client_log (client u)) @
       (if charging_supported u \<and> charging (ds_step bw e u) \<noteq> charging u
        then [charging (ds_step bw e u)] else [])"
proof (cases e)
  case (Radio_completed r st resp err)
  then show ?thesis by (simp only: completed_fields) simp
qed (simp_all add: binder_devmon_ds_io_connman_cb_def binder_devmon_ds_io_battery_cb_def
      binder_devmon_ds_io_charger_cb_def binder_devmon_ds_io_display_cb_def
      update_low_data_emit update_charging_emit set_cell_info_ds handler_ds_emit
      emit_sent_states)

lemma emit_low_twice: "ds_emit_low_data v (ds_emit_low_data v u) = ds_emit_low_data v u"
  by (subst ds_emit_low_data_def) simp

lemma emit_chg_twice: "ds_emit_charging v (ds_emit_charging v u) = ds_emit_charging v u"
  by (subst ds_emit_charging_def) simp

lemma update_low_data_twice:
  "binder_devmon_ds_io_update_low_data (binder_devmon_ds_io_update_low_data u) =
     binder_devmon_ds_io_update_low_data u"
  by (simp add: update_low_data_emit emit_low_twice)

lemma update_charging_twice:
  "binder_devmon_ds_io_update_charging (binder_devmon_ds_io_update_charging u) =
     binder_devmon_ds_io_update_charging u"
  by (simp add: update_charging_emit emit_chg_twice)

text \<open>
  C9. Whatever the event, a low-data (charging) request is submitted by the step exactly
  when the kind is supported and the step changes the stored last value, and it carries
  the new value; so recomputing an unchanged decision submits nothing (running an update
  function a second time changes nothing at all), and over a whole session the values
  submitted for one kind alternate. The interval, in contrast, is handed to the slot on
  every battery, display and charger event, changed or not.
\<close>

theorem edge_triggered:
  assumes "client_log cl = []"
    and "s = ds_run bw es (binder_devmon_ds_start_io bw ds cl sl ini)"
  shows
  "distinct_adj (sent_states RADIO_DEVICE_STATE_LOW_DATA_EXPECTED (client_log (client s))) \<and>
   distinct_adj (sent_states RADIO_DEVICE_STATE_CHARGING_STATE (client_log (client s))) \<and>
   sent_states RADIO_DEVICE_STATE_LOW_DATA_EXPECTED (client_log (client (ds_step bw e u))) =
     sent_states RADIO_DEVICE_STATE_LOW_DATA_EXPECTED (client_log (client u)) @
       (if low_data_supported u \<and> low_data (ds_step bw e u) \<noteq> low_data u
        then [low_data (ds_step bw e u)] else []) \<and>
   sent_states RADIO_DEVICE_STATE_CHARGING_STATE (client_log (client (ds_step bw e u))) =
     sent_states RADIO_DEVICE_STATE_CHARGING_STATE (client_log (client u)) @
       (if charging_supported u \<and> charging (ds_step bw e u) \<noteq> charging u
        then [charging (ds_step bw e u)] else []) \<and>
   binder_devmon_ds_io_update_low_data (binder_devmon_ds_io_update_low_data u) =
     binder_devmon_ds_io_update_low_data u \<and>
   binder_devmon_ds_io_update_charging (binder_devmon_ds_io_update_charging u) =
     binder_devmon_ds_io_update_charging u \<and>
   length (slot_intervals (slot (ds_step bw (Battery_changed b) u))) =
     Suc (length (slot_intervals (slot u))) \<and>
   length (slot_intervals (slot (ds_step bw (Display_changed d) u))) =
     Suc (length (slot_intervals (slot u))) \<and>
   length (slot_intervals (slot (ds_step bw (Charger_changed c) u))) =
     Suc (length (slot_intervals (slot u)))"
proof -
  have "ds_edge_inv s"
    unfolding assms(2) by (rule ds_edge_inv_run) (rule ds_edge_inv_start [OF assms(1)])
  then have a: "distinct_adj
      (sent_states RADIO_DEVICE_STATE_LOW_DATA_EXPECTED (client_log (client s)))"
    and b: "distinct_adj
      (sent_states RADIO_DEVICE_STATE_CHARGING_STATE (client_log (client s)))"
    by (simp_all add: ds_edge_inv_def)
  have c: "length (slot_intervals (slot (ds_step bw (Battery_changed b) u))) =
     Suc (length (slot_intervals (slot u)))"
    "length (slot_intervals (slot (ds_step bw (Display_changed d) u))) =
     Suc (length (slot_intervals (slot u)))"
    "length (slot_intervals (slot (ds_step bw (Charger_changed c) u))) =
     Suc (length (slot_intervals (slot u)))"
    by (simp_all add: binder_devmon_ds_io_battery_cb_def
      binder_devmon_ds_io_charger_cb_def binder_devmon_ds_io_display_cb_def
      update_low_data_emit update_charging_emit set_cell_info_ds)
  show ?thesis
    apply (intro conjI)
            apply (rule a)
           apply (rule b)
          apply (rule ds_step_sent_low)
         apply (rule ds_step_sent_chg)
        apply (rule update_low_data_twice)
       apply (rule update_charging_twice)
      apply (rule c(1))
     apply (rule c(2))
    apply (rule c(3))
    done
qed

theorem edge_triggered_witness:
  "client_log client_sample = [] \<and>
   distinct_adj (sent_states RADIO_DEVICE_STATE_LOW_DATA_EXPECTED (client_log (client
     (ds_run batman_sample
      [Charger_changed \<lparr>charger_valid = True, charger_state = MCE_CHARGER_ON\<rparr>,
       Charger_changed \<lparr>charger_valid = True, charger_state = MCE_CHARGER_OFF\<rparr>,
       Battery_changed \<lparr>battery_valid = True, battery_status = MCE_BATTERY_OK\<rparr>,
       Battery_changed \<lparr>battery_valid = True, battery_status = MCE_BATTERY_OK\<rparr>,
       Connman_changed \<lparr>connman_valid = True, connman_tethering = False\<rparr>]
      (binder_devmon_ds_start_io batman_sample
         (ds_sample False MCE_CHARGER_OFF MCE_DISPLAY_STATE_OFF)
         client_sample slot_sample no_watch))))) \<and>
   sent_states RADIO_DEVICE_STATE_LOW_DATA_EXPECTED (client_log (client
     (ds_run batman_sample
      [Charger_changed \<lparr>charger_valid = True, charger_state = MCE_CHARGER_ON\<rparr>,
       Charger_changed \<lparr>charger_valid = True, charger_state = MCE_CHARGER_OFF\<rparr>,
       Battery_changed \<lparr>battery_valid = True, battery_status = MCE_BATTERY_OK\<rparr>,
       Battery_changed \<lparr>battery_valid = True, battery_status = MCE_BATTERY_OK\<rparr>,
       Connman_changed \<lparr>connman_valid = True, connman_tethering = False\<rparr>]
      (binder_devmon_ds_start_io batman_sample
         (ds_sample False MCE_CHARGER_OFF MCE_DISPLAY_STATE_OFF)
         client_sample slot_sample no_watch)))) = [True, False, True] \<and>
   sent_states RADIO_DEVICE_STATE_CHARGING_STATE (client_log (client
     (ds_run batman_sample
      [Charger_changed \<lparr>charger_valid = True, charger_state = MCE_CHARGER_ON\<rparr>,
       Charger_changed \<lparr>charger_valid = True, charger_state = MCE_CHARGER_OFF\<rparr>,
       Battery_changed \<lparr>battery_valid = True, battery_status = MCE_BATTERY_OK\<rparr>,
       Battery_changed \<lparr>battery_valid = True, battery_status = MCE_BATTERY_OK\<rparr>,
       Connman_changed \<lparr>connman_valid = True, connman_tethering = False\<rparr>]
      (binder_devmon_ds_start_io batman_sample
         (ds_sample False MCE_CHARGER_OFF MCE_DISPLAY_STATE_OFF)
         client_sample slot_sample no_watch)))) = [True, False] \<and>
   slot_intervals (slot
     (ds_run batman_sample
      [Charger_changed \<lparr>charger_valid = True, charger_state = MCE_CHARGER_ON\<rparr>,
       Charger_changed \<lparr>charger_valid = True, charger_state = MCE_CHARGER_OFF\<rparr>,
       Battery_changed \<lparr>battery_valid = True, battery_status = MCE_BATTERY_OK\<rparr>,
       Battery_changed \<lparr>battery_valid = True, battery_status = MCE_BATTERY_OK\<rparr>,
       Connman_changed \<lparr>connman_valid = True, connman_tethering = False\<rparr>]
      (binder_devmon_ds_start_io batman_sample
         (ds_sample False MCE_CHARGER_OFF MCE_DISPLAY_STATE_OFF)
         client_sample slot_sample no_watch))) = [30000, 30000, 30000, 30000, 30000]"
proof -
  have l: "client_log client_sample = []"
    by (simp add: client_sample_def)
  note inst = edge_triggered [OF l refl, of batman_sample
      "[Charger_changed \<lparr>charger_valid = True, charger_state = MCE_CHARGER_ON\<rparr>,
       Charger_changed \<lparr>charger_valid = True, charger_state = MCE_CHARGER_OFF\<rparr>,
       Battery_changed \<lparr>battery_valid = True, battery_status = MCE_BATTERY_OK\<rparr>,
       Battery_changed \<lparr>battery_valid = True, battery_status = MCE_BATTERY_OK\<rparr>,
       Connman_changed \<lparr>connman_valid = True, connman_tethering = False\<rparr>]"
      "ds_sample False MCE_CHARGER_OFF MCE_DISPLAY_STATE_OFF" slot_sample no_watch]
  have ev: "sent_states RADIO_DEVICE_STATE_LOW_DATA_EXPECTED (client_log (client
     (ds_run batman_sample
      [Charger_changed \<lparr>charger_valid = True, charger_state = MCE_CHARGER_ON\<rparr>,
       Charger_changed \<lparr>charger_valid = True, charger_state = MCE_CHARGER_OFF\<rparr>,
       Battery_changed \<lparr>battery_valid = True, battery_status = MCE_BATTERY_OK\<rparr>,
       Battery_changed \<lparr>battery_valid = True, battery_status = MCE_BATTERY_OK\<rparr>,
       Connman_changed \<lparr>connman_valid = True, connman_tethering = False\<rparr>]
      (binder_devmon_ds_start_io batman_sample
         (ds_sample False MCE_CHARGER_OFF MCE_DISPLAY_STATE_OFF)
         client_sample slot_sample no_watch)))) = [True, False, True]"
    "sent_states RADIO_DEVICE_STATE_CHARGING_STATE (client_log (client
     (ds_run batman_sample
      [Charger_changed \<lparr>charger_valid = True, charger_state = MCE_CHARGER_ON\<rparr>,
       Charger_changed \<lparr>charger_valid = True, charger_state = MCE_CHARGER_OFF\<rparr>,
       Battery_changed \<lparr>battery_valid = True, battery_status = MCE_BATTERY_OK\<rparr>,
       Battery_changed \<lparr>battery_valid = True, battery_status = MCE_BATTERY_OK\<rparr>,
       Connman_changed \<lparr>connman_valid = True, connman_tethering = False\<rparr>]
      (binder_devmon_ds_start_io batman_sample
         (ds_sample False MCE_CHARGER_OFF MCE_DISPLAY_STATE_OFF)
         client_sample slot_sample no_watch)))) = [True, False]"
    "slot_intervals (slot
     (ds_run batman_sample
      [Charger_changed \<lparr>charger_valid = True, charger_state = MCE_CHARGER_ON\<rparr>,
       Charger_changed \<lparr>charger_valid = True, charger_state = MCE_CHARGER_OFF\<rparr>,
       Battery_changed \<lparr>battery_valid = True, battery_status = MCE_BATTERY_OK\<rparr>,
       Battery_changed \<lparr>battery_valid = True, battery_status = MCE_BATTERY_OK\<rparr>,
       Connman_changed \<lparr>connman_valid = True, connman_tethering = False\<rparr>]
      (binder_devmon_ds_start_io batman_sample
         (ds_sample False MCE_CHARGER_OFF MCE_DISPLAY_STATE_OFF)
         client_sample slot_sample no_watch))) = [30000, 30000, 30000, 30000, 30000]"
    by (simp_all add: sample_defs ds_source_defs env_defs log_defs)
  show ?thesis
    apply (intro conjI)
        apply (rule l)
       apply (rule inst [THEN conjunct1])
      apply (rule ev(1))
     apply (rule ev(2))
    apply (rule ev(3))
    done
qed

section \<open>Completions that report an error\<close>

text \<open>
  C7, as the code has it. A completion whose status is not OK, or whose status is OK with
  the expected response code and an error other than REQUEST_NOT_SUPPORTED, only clears
  the pending slot: the supported flag and the stored last value stay, so the next event
  that changes the decision submits again. On an unexpected response code (status OK) the
  IF variant does the same, whereas both completion functions of the DS variant mark
  their kind unsupported.
\<close>

theorem completion_errors:
  "(status \<noteq> RADIO_TX_STATUS_OK \<or>
    resp = RADIO_RESP_SEND_DEVICE_STATE \<and> error \<noteq> RADIO_ERROR_REQUEST_NOT_SUPPORTED \<longrightarrow>
      binder_devmon_ds_io_low_data_state_sent x status resp error u =
        u\<lparr>low_data_req := None\<rparr> \<and>
      binder_devmon_ds_io_charging_state_sent x status resp error u =
        u\<lparr>charging_req := None\<rparr> \<and>
      sent_states RADIO_DEVICE_STATE_LOW_DATA_EXPECTED (client_log (client
          (ds_step bw e (binder_devmon_ds_io_low_data_state_sent x status resp error u)))) =
        sent_states RADIO_DEVICE_STATE_LOW_DATA_EXPECTED (client_log (client u)) @
          (if low_data_supported u \<and>
              low_data (ds_step bw e
                (binder_devmon_ds_io_low_data_state_sent x status resp error u)) \<noteq> low_data u
           then [low_data (ds_step bw e
                   (binder_devmon_ds_io_low_data_state_sent x status resp error u))]
           else []) \<and>
      sent_states RADIO_DEVICE_STATE_CHARGING_STATE (client_log (client
          (ds_step bw e (binder_devmon_ds_io_charging_state_sent x status resp error u)))) =
        sent_states RADIO_DEVICE_STATE_CHARGING_STATE (client_log (client u)) @
          (if charging_supported u \<and>
              charging (ds_step bw e
                (binder_devmon_ds_io_charging_state_sent x status resp error u)) \<noteq> charging u
           then [charging (ds_step bw e
                   (binder_devmon_ds_io_charging_state_sent x status resp error u))]
           else [])) \<and>
   (status = RADIO_TX_STATUS_OK \<and> resp \<noteq> RADIO_RESP_SEND_DEVICE_STATE \<longrightarrow>
      binder_devmon_ds_io_low_data_state_sent x status resp error u =
        u\<lparr>low_data_req := None, low_data_supported := False\<rparr> \<and>
      binder_devmon_ds_io_charging_state_sent x status resp error u =
        u\<lparr>charging_req := None, charging_supported := False\<rparr>) \<and>
   (status \<noteq> RADIO_TX_STATUS_OK \<or> resp \<noteq> RADIO_RESP_SET_INDICATION_FILTER \<or>
    error \<noteq> RADIO_ERROR_REQUEST_NOT_SUPPORTED \<longrightarrow>
      binder_devmon_if_io_indication_filter_sent x status resp error v =
        v\<lparr>if_req := None\<rparr> \<and>
      filter_reqs (client_log (if_client (binder_devmon_if_io_set_indication_filter
          (binder_devmon_if_io_indication_filter_sent x status resp error v)))) =
        filter_reqs (client_log (if_client v)) @
          (if if_ind_filter_supported v then [client_next (if_client v)] else []))"
proof -
  have ds: "binder_devmon_ds_io_low_data_state_sent x status resp error u =
        u\<lparr>low_data_req := None\<rparr> \<and>
      binder_devmon_ds_io_charging_state_sent x status resp error u =
        u\<lparr>charging_req := None\<rparr>"
    if "status \<noteq> RADIO_TX_STATUS_OK \<or>
      resp = RADIO_RESP_SEND_DEVICE_STATE \<and> error \<noteq> RADIO_ERROR_REQUEST_NOT_SUPPORTED"
    using that
    by (auto simp: binder_devmon_ds_io_low_data_state_sent_def
        binder_devmon_ds_io_charging_state_sent_def Let_def)
  have 1: "binder_devmon_ds_io_low_data_state_sent x status resp error u =
        u\<lparr>low_data_req := None\<rparr> \<and>
      binder_devmon_ds_io_charging_state_sent x status resp error u =
        u\<lparr>charging_req := None\<rparr> \<and>
      sent_states RADIO_DEVICE_STATE_LOW_DATA_EXPECTED (client_log (client
          (ds_step bw e (binder_devmon_ds_io_low_data_state_sent x status resp error u)))) =
        sent_states RADIO_DEVICE_STATE_LOW_DATA_EXPECTED (client_log (client u)) @
          (if low_data_supported u \<and>
              low_data (ds_step bw e
                (binder_devmon_ds_io_low_data_state_sent x status resp error u)) \<noteq> low_data u
           then [low_data (ds_step bw e
                   (binder_devmon_ds_io_low_data_state_sent x status resp error u))]
           else []) \<and>
      sent_states RADIO_DEVICE_STATE_CHARGING_STATE (client_log (client
          (ds_step bw e (binder_devmon_ds_io_charging_state_sent x status resp error u)))) =
        sent_states RADIO_DEVICE_STATE_CHARGING_STATE (client_log (client u)) @
          (if charging_supported u \<and>
              charging (ds_step bw e
                (binder_devmon_ds_io_charging_state_sent x status resp error u)) \<noteq> charging u
           then [charging (ds_step bw e
                   (binder_devmon_ds_io_charging_state_sent x status resp error u))]
           else [])"
    if h: "status \<noteq> RADIO_TX_STATUS_OK \<or>
      resp = RADIO_RESP_SEND_DEVICE_STATE \<and> error \<noteq> RADIO_ERROR_REQUEST_NOT_SUPPORTED"
    unfolding ds [OF h, THEN conjunct1] ds [OF h, THEN conjunct2]
    using ds_step_sent_low [of bw e "u\<lparr>low_data_req := None\<rparr>"]
      ds_step_sent_chg [of bw e "u\<lparr>charging_req := None\<rparr>"]
    by simp
  have 2: "binder_devmon_ds_io_low_data_state_sent x status resp error u =
        u\<lparr>low_data_req := None, low_data_supported := False\<rparr> \<and>
      binder_devmon_ds_io_charging_state_sent x status resp error u =
        u\<lparr>charging_req := None, charging_supported := False\<rparr>"
    if "status = RADIO_TX_STATUS_OK \<and> resp \<noteq> RADIO_RESP_SEND_DEVICE_STATE"
    using that
    by (simp add: binder_devmon_ds_io_low_data_state_sent_def
        binder_devmon_ds_io_charging_state_sent_def Let_def)
  have if1: "binder_devmon_if_io_indication_filter_sent x status resp error v =
        v\<lparr>if_req := None\<rparr>"
    if "status \<noteq> RADIO_TX_STATUS_OK \<or> resp \<noteq> RADIO_RESP_SET_INDICATION_FILTER \<or>
      error \<noteq> RADIO_ERROR_REQUEST_NOT_SUPPORTED"
    using that
    by (auto simp: binder_devmon_if_io_indication_filter_sent_def Let_def)
  have 3: "binder_devmon_if_io_indication_filter_sent x status resp error v =
        v\<lparr>if_req := None\<rparr> \<and>
      filter_reqs (client_log (if_client (binder_devmon_if_io_set_indication_filter
          (binder_devmon_if_io_indication_filter_sent x status resp error v)))) =
        filter_reqs (client_log (if_client v)) @
          (if if_ind_filter_supported v then [client_next (if_client v)] else [])"
    if h: "status \<noteq> RADIO_TX_STATUS_OK \<or> resp \<noteq> RADIO_RESP_SET_INDICATION_FILTER \<or>
      error \<noteq> RADIO_ERROR_REQUEST_NOT_SUPPORTED"
    unfolding if1 [OF h] by (simp add: set_filter_reqs)
  show ?thesis
    apply (rule conjI)
     apply (rule impI)
     apply (erule 1)
    apply (rule conjI)
     apply (rule impI)
     apply (erule 2)
    apply (rule impI)
    apply (erule 3)
    done
qed

theorem completion_errors_witness:
  "RADIO_TX_STATUS_TIMEOUT \<noteq> RADIO_TX_STATUS_OK \<and>
   RADIO_RESP_OTHER 5 \<noteq> RADIO_RESP_SEND_DEVICE_STATE \<and>
   RADIO_RESP_OTHER 5 \<noteq> RADIO_RESP_SET_INDICATION_FILTER \<and>
   low_data_supported (binder_devmon_ds_io_low_data_state_sent 0 RADIO_TX_STATUS_TIMEOUT
      RADIO_RESP_SEND_DEVICE_STATE RADIO_ERROR_NONE
      (binder_devmon_ds_start_io batman_sample
         (ds_sample False MCE_CHARGER_OFF MCE_DISPLAY_STATE_OFF)
         client_sample slot_sample no_watch)) \<and>
   sent_states RADIO_DEVICE_STATE_LOW_DATA_EXPECTED (client_log (client
      (ds_step batman_sample
         (Display_changed \<lparr>display_valid = True, display_state = MCE_DISPLAY_STATE_ON\<rparr>)
         (binder_devmon_ds_io_low_data_state_sent 0 RADIO_TX_STATUS_TIMEOUT
            RADIO_RESP_SEND_DEVICE_STATE RADIO_ERROR_NONE
            (binder_devmon_ds_start_io batman_sample
         (ds_sample False MCE_CHARGER_OFF MCE_DISPLAY_STATE_OFF)
         client_sample slot_sample no_watch))))) = [True, False] \<and>
   \<not> charging_supported (binder_devmon_ds_io_charging_state_sent 0 RADIO_TX_STATUS_OK
      (RADIO_RESP_OTHER 5) RADIO_ERROR_NONE
      (binder_devmon_ds_start_io batman_sample
         (ds_sample False MCE_CHARGER_OFF MCE_DISPLAY_STATE_OFF)
         client_sample slot_sample no_watch)) \<and>
   if_ind_filter_supported (binder_devmon_if_io_indication_filter_sent 0 RADIO_TX_STATUS_OK
      (RADIO_RESP_OTHER 5) RADIO_ERROR_NONE
      (binder_devmon_if_start_io batman_sample
         (if_sample MCE_CHARGER_OFF MCE_DISPLAY_STATE_OFF)
         client_sample slot_sample no_watch)) \<and>
   filter_reqs (client_log (if_client (binder_devmon_if_io_set_indication_filter
      (binder_devmon_if_io_indication_filter_sent 0 RADIO_TX_STATUS_OK
         (RADIO_RESP_OTHER 5) RADIO_ERROR_NONE
         (binder_devmon_if_start_io batman_sample
         (if_sample MCE_CHARGER_OFF MCE_DISPLAY_STATE_OFF)
         client_sample slot_sample no_watch))))) = [0, 1]"
  using completion_errors [of RADIO_TX_STATUS_TIMEOUT RADIO_RESP_SEND_DEVICE_STATE
      RADIO_ERROR_NONE 0
      "(binder_devmon_ds_start_io batman_sample
         (ds_sample False MCE_CHARGER_OFF MCE_DISPLAY_STATE_OFF)
         client_sample slot_sample no_watch)"
      batman_sample
      "Display_changed \<lparr>display_valid = True, display_state = MCE_DISPLAY_STATE_ON\<rparr>"
      "(binder_devmon_if_start_io batman_sample
         (if_sample MCE_CHARGER_OFF MCE_DISPLAY_STATE_OFF)
         client_sample slot_sample no_watch)"]
    completion_errors [of RADIO_TX_STATUS_OK "RADIO_RESP_OTHER 5"
      RADIO_ERROR_NONE 0
      "(binder_devmon_ds_start_io batman_sample
         (ds_sample False MCE_CHARGER_OFF MCE_DISPLAY_STATE_OFF)
         client_sample slot_sample no_watch)"
      batman_sample
      "Display_changed \<lparr>display_valid = True, display_state = MCE_DISPLAY_STATE_ON\<rparr>"
      "(binder_devmon_if_start_io batman_sample
         (if_sample MCE_CHARGER_OFF MCE_DISPLAY_STATE_OFF)
         client_sample slot_sample no_watch)"]
  by (simp add: sample_defs ds_source_defs if_source_defs env_defs log_defs)

theorem unexpected_response_counterexample:
  "map_of (client_pending (client
      (binder_devmon_ds_start_io batman_sample
         (ds_sample False MCE_CHARGER_OFF MCE_DISPLAY_STATE_OFF)
         client_sample slot_sample no_watch))) 0 = Some Low_data_state_sent \<and>
   low_data_supported
      (binder_devmon_ds_start_io batman_sample
         (ds_sample False MCE_CHARGER_OFF MCE_DISPLAY_STATE_OFF)
         client_sample slot_sample no_watch) \<and>
   \<not> low_data_supported (ds_step batman_sample
      (Radio_completed 0 RADIO_TX_STATUS_OK (RADIO_RESP_OTHER 5) RADIO_ERROR_NONE)
      (binder_devmon_ds_start_io batman_sample
         (ds_sample False MCE_CHARGER_OFF MCE_DISPLAY_STATE_OFF)
         client_sample slot_sample no_watch)) \<and>
   client_log (client (ds_run batman_sample
      [Radio_completed 0 RADIO_TX_STATUS_OK (RADIO_RESP_OTHER 5) RADIO_ERROR_NONE,
       Display_changed \<lparr>display_valid = True, display_state = MCE_DISPLAY_STATE_ON\<rparr>,
       Display_changed \<lparr>display_valid = True, display_state = MCE_DISPLAY_STATE_OFF\<rparr>]
      (binder_devmon_ds_start_io batman_sample
         (ds_sample False MCE_CHARGER_OFF MCE_DISPLAY_STATE_OFF)
         client_sample slot_sample no_watch))) =
     [Submit 0 RADIO_REQ_SEND_DEVICE_STATE
        (Device_state_args RADIO_DEVICE_STATE_LOW_DATA_EXPECTED True)]"
  by (simp add: sample_defs ds_source_defs env_defs)

section \<open>The start of a session\<close>

lemma set_filter_sources [simp]:
  "if_battery (binder_devmon_if_io_set_indication_filter s) = if_battery s"
  "if_charger (binder_devmon_if_io_set_indication_filter s) = if_charger s"
  "if_display (binder_devmon_if_io_set_indication_filter s) = if_display s"
  "if_cell_info_interval_short_ms (binder_devmon_if_io_set_indication_filter s) =
     if_cell_info_interval_short_ms s"
  "if_cell_info_interval_long_ms (binder_devmon_if_io_set_indication_filter s) =
     if_cell_info_interval_long_ms s"
  by (simp_all add: binder_devmon_if_io_set_indication_filter_def Let_def
      split: prod.splits)









section \<open>The fallback handler's own rules\<close>

text \<open>
  C4, as the code has it. The inotify handler does not apply the rules of the primary
  path. In the DS variant, once past the channel checks, it sets \<open>low_data\<close> to "the
  screen file does not start with \<open>yes\<close> and the battery state is DISCHARGING"
  (tethering is not looked at), \<open>charging\<close> to "the battery state is CHARGING or
  FULLY_CHARGED", and hands over the short interval exactly when the screen reads
  \<open>yes\<close> or \<open>charging\<close> holds; what it shares with the primary path is the way the two
  values are sent: only when supported and changed. In the IF variant the handler only
  sets the interval, to the short one whenever the screen file starts with \<open>yes\<close>.
\<close>

theorem fallback_rules:
  "(\<not> (channel \<and> (io_condition_failed io \<or> io_read_error io \<or> io_bytes_read io = 0)) \<longrightarrow>
      low_data (snd (handle_batman_inotify_events_ds bw channel io u)) =
        ((\<nexists>content. io_screen_file io = Some content \<and> take 3 content = ''yes'') \<and>
         io_battery_state io = BATMAN_DISCHARGING bw) \<and>
      charging (snd (handle_batman_inotify_events_ds bw channel io u)) =
        (io_battery_state io = BATMAN_CHARGING bw \<or>
         io_battery_state io = BATMAN_FULLY_CHARGED bw) \<and>
      slot_intervals (slot (snd (handle_batman_inotify_events_ds bw channel io u))) =
        slot_intervals (slot u) @
          [if (\<exists>content. io_screen_file io = Some content \<and> take 3 content = ''yes'') \<or>
              io_battery_state io = BATMAN_CHARGING bw \<or>
              io_battery_state io = BATMAN_FULLY_CHARGED bw
           then cell_info_interval_short_ms u else cell_info_interval_long_ms u] \<and>
      sent_states RADIO_DEVICE_STATE_LOW_DATA_EXPECTED
          (client_log (client (snd (handle_batman_inotify_events_ds bw channel io u)))) =
        sent_states RADIO_DEVICE_STATE_LOW_DATA_EXPECTED (client_log (client u)) @
          (if low_data_supported u \<and>
              low_data (snd (handle_batman_inotify_events_ds bw channel io u)) \<noteq> low_data u
           then [low_data (snd (handle_batman_inotify_events_ds bw channel io u))] else []) \<and>
      sent_states RADIO_DEVICE_STATE_CHARGING_STATE
          (client_log (client (snd (handle_batman_inotify_events_ds bw channel io u)))) =
        sent_states RADIO_DEVICE_STATE_CHARGING_STATE (client_log (client u)) @
          (if charging_supported u \<and>
              charging (snd (handle_batman_inotify_events_ds bw channel io u)) \<noteq> charging u
           then [charging (snd (handle_batman_inotify_events_ds bw channel io u))] else [])) \<and>
   (\<not> (channel \<and> (io_condition_failed io \<or> io_read_error io \<or> io_bytes_read io = 0)) \<and>
    (\<exists>content. io_screen_file io = Some content \<and> take 3 content = ''yes'') \<longrightarrow>
      slot_intervals (if_slot (snd (handle_batman_inotify_events_if bw channel io v))) =
        slot_intervals (if_slot v) @ [if_cell_info_interval_short_ms v])"
proof -
  define yes where "yes \<longleftrightarrow> (\<exists>content. io_screen_file io = Some content \<and> take 3 content = ''yes'')"
  have rs: "batman_read_screen (io_screen_file io) = (if yes then 1 else 0)"
    by (simp only: yes_def batman_read_screen_yes)
  have run': "snd (handle_batman_inotify_events_ds bw channel io u) =
      ds_set_interval
        (if yes \<or>
            io_battery_state io = BATMAN_CHARGING bw \<or>
            io_battery_state io = BATMAN_FULLY_CHARGED bw
         then cell_info_interval_short_ms u else cell_info_interval_long_ms u)
        (ds_emit_charging
           (io_battery_state io = BATMAN_CHARGING bw \<or>
            io_battery_state io = BATMAN_FULLY_CHARGED bw)
           (ds_emit_low_data (\<not> yes \<and> io_battery_state io = BATMAN_DISCHARGING bw) u))"
    if h: "\<not> (channel \<and> (io_condition_failed io \<or> io_read_error io \<or> io_bytes_read io = 0))"
  proof (cases channel)
    case True
    with h have "\<not> io_condition_failed io" "\<not> io_read_error io" "io_bytes_read io \<noteq> 0"
      by simp_all
    then show ?thesis
      by (cases yes) (simp_all add: handler_ds_emit rs)
  next
    case False
    then show ?thesis
      by (cases yes) (simp_all add: handler_ds_emit rs)
  qed
  note run = run' [unfolded yes_def]
  have ds: "low_data (snd (handle_batman_inotify_events_ds bw channel io u)) =
        ((\<nexists>content. io_screen_file io = Some content \<and> take 3 content = ''yes'') \<and>
         io_battery_state io = BATMAN_DISCHARGING bw) \<and>
      charging (snd (handle_batman_inotify_events_ds bw channel io u)) =
        (io_battery_state io = BATMAN_CHARGING bw \<or>
         io_battery_state io = BATMAN_FULLY_CHARGED bw) \<and>
      slot_intervals (slot (snd (handle_batman_inotify_events_ds bw channel io u))) =
        slot_intervals (slot u) @
          [if (\<exists>content. io_screen_file io = Some content \<and> take 3 content = ''yes'') \<or>
              io_battery_state io = BATMAN_CHARGING bw \<or>
              io_battery_state io = BATMAN_FULLY_CHARGED bw
           then cell_info_interval_short_ms u else cell_info_interval_long_ms u] \<and>
      sent_states RADIO_DEVICE_STATE_LOW_DATA_EXPECTED
          (client_log (client (snd (handle_batman_inotify_events_ds bw channel io u)))) =
        sent_states RADIO_DEVICE_STATE_LOW_DATA_EXPECTED (client_log (client u)) @
          (if low_data_supported u \<and>
              low_data (snd (handle_batman_inotify_events_ds bw channel io u)) \<noteq> low_data u
           then [low_data (snd (handle_batman_inotify_events_ds bw channel io u))] else []) \<and>
      sent_states RADIO_DEVICE_STATE_CHARGING_STATE
          (client_log (client (snd (handle_batman_inotify_events_ds bw channel io u)))) =
        sent_states RADIO_DEVICE_STATE_CHARGING_STATE (client_log (client u)) @
          (if charging_supported u \<and>
              charging (snd (handle_batman_inotify_events_ds bw channel io u)) \<noteq> charging u
           then [charging (snd (handle_batman_inotify_events_ds bw channel io u))] else [])"
    if h: "\<not> (channel \<and> (io_condition_failed io \<or> io_read_error io \<or> io_bytes_read io = 0))"
    unfolding run [OF h]
    apply (intro conjI)
        apply simp
       apply simp
      apply simp
     apply (simp add: emit_sent_states)
    apply (simp add: emit_sent_states)
    done
  have "if": "slot_intervals (if_slot (snd (handle_batman_inotify_events_if bw channel io v))) =
        slot_intervals (if_slot v) @ [if_cell_info_interval_short_ms v]"
    if "\<not> (channel \<and> (io_condition_failed io \<or> io_read_error io \<or> io_bytes_read io = 0)) \<and>
      (\<exists>content. io_screen_file io = Some content \<and> take 3 content = ''yes'')"
    using that
    by (auto simp: handle_batman_inotify_events_if_def batman_read_screen_yes Let_def
        ofono_slot_set_cell_info_update_interval_def)
  show ?thesis
    apply (rule conjI)
     apply (rule impI)
     apply (erule ds)
    apply (rule impI)
    apply (erule "if")
    done
qed

theorem fallback_rules_witness:
  "\<not> io_condition_failed (io_sample ''yes'' 3) \<and>
   \<not> io_read_error (io_sample ''yes'' 3) \<and>
   io_bytes_read (io_sample ''yes'' 3) \<noteq> 0 \<and>
   io_screen_file (io_sample ''yes'' 3) = Some ''yes'' \<and>
   \<not> low_data (snd (handle_batman_inotify_events_ds batman_sample True
      (io_sample ''yes'' 3)
      (binder_devmon_ds_start_io batman_sample
         (ds_sample False MCE_CHARGER_OFF MCE_DISPLAY_STATE_OFF)
         client_sample slot_sample no_watch))) \<and>
   slot_intervals (slot (snd (handle_batman_inotify_events_ds batman_sample True
      (io_sample ''yes'' 3)
      (binder_devmon_ds_start_io batman_sample
         (ds_sample False MCE_CHARGER_OFF MCE_DISPLAY_STATE_OFF)
         client_sample slot_sample no_watch)))) = [30000, 2000] \<and>
   sent_states RADIO_DEVICE_STATE_LOW_DATA_EXPECTED
     (client_log (client (snd (handle_batman_inotify_events_ds batman_sample True
      (io_sample ''yes'' 3)
      (binder_devmon_ds_start_io batman_sample
         (ds_sample False MCE_CHARGER_OFF MCE_DISPLAY_STATE_OFF)
         client_sample slot_sample no_watch))))) = [True, False] \<and>
   slot_intervals (if_slot (snd (handle_batman_inotify_events_if batman_sample True
      (io_sample ''yes'' 3)
      (binder_devmon_if_start_io batman_sample
         (if_sample MCE_CHARGER_OFF MCE_DISPLAY_STATE_OFF)
         client_sample slot_sample no_watch)))) = [30000, 2000]"
proof -
  have io: "\<not> io_condition_failed (io_sample ''yes'' 3)"
    "\<not> io_read_error (io_sample ''yes'' 3)"
    "io_bytes_read (io_sample ''yes'' 3) \<noteq> 0"
    "io_screen_file (io_sample ''yes'' 3) = Some ''yes''"
    "io_battery_state (io_sample ''yes'' 3) = 3"
    "BATMAN_DISCHARGING batman_sample = 3" "BATMAN_CHARGING batman_sample = 2"
    "BATMAN_FULLY_CHARGED batman_sample = 4"
    by (simp_all add: io_sample_def batman_sample_def)
  have st: "low_data (binder_devmon_ds_start_io batman_sample
         (ds_sample False MCE_CHARGER_OFF MCE_DISPLAY_STATE_OFF)
         client_sample slot_sample no_watch)"
    "low_data_supported (binder_devmon_ds_start_io batman_sample
         (ds_sample False MCE_CHARGER_OFF MCE_DISPLAY_STATE_OFF)
         client_sample slot_sample no_watch)"
    "slot_intervals (slot (binder_devmon_ds_start_io batman_sample
         (ds_sample False MCE_CHARGER_OFF MCE_DISPLAY_STATE_OFF)
         client_sample slot_sample no_watch)) = [30000]"
    "cell_info_interval_short_ms (binder_devmon_ds_start_io batman_sample
         (ds_sample False MCE_CHARGER_OFF MCE_DISPLAY_STATE_OFF)
         client_sample slot_sample no_watch) = 2000"
    "sent_states RADIO_DEVICE_STATE_LOW_DATA_EXPECTED (client_log (client (binder_devmon_ds_start_io batman_sample
         (ds_sample False MCE_CHARGER_OFF MCE_DISPLAY_STATE_OFF)
         client_sample slot_sample no_watch))) = [True]"
    "slot_intervals (if_slot (binder_devmon_if_start_io batman_sample
         (if_sample MCE_CHARGER_OFF MCE_DISPLAY_STATE_OFF)
         client_sample slot_sample no_watch)) = [30000]"
    "if_cell_info_interval_short_ms (binder_devmon_if_start_io batman_sample
         (if_sample MCE_CHARGER_OFF MCE_DISPLAY_STATE_OFF)
         client_sample slot_sample no_watch) = 2000"
    by (simp_all add: sample_defs ds_source_defs if_source_defs env_defs)
  from fallback_rules [of True "io_sample ''yes'' 3"
      batman_sample "(binder_devmon_ds_start_io batman_sample
         (ds_sample False MCE_CHARGER_OFF MCE_DISPLAY_STATE_OFF)
         client_sample slot_sample no_watch)" "(binder_devmon_if_start_io batman_sample
         (if_sample MCE_CHARGER_OFF MCE_DISPLAY_STATE_OFF)
         client_sample slot_sample no_watch)"]
  show ?thesis
    by (simp add: io st)
qed

theorem fallback_rules_counterexample:
  "slot_intervals (slot (binder_devmon_ds_io_set_cell_info_update_interval
      (binder_devmon_ds_start_io batman_sample
         (ds_sample False MCE_CHARGER_ON MCE_DISPLAY_STATE_OFF)
         client_sample slot_sample no_watch))) = [30000, 30000] \<and>
   slot_intervals (slot (snd (handle_batman_inotify_events_ds batman_sample True
      (io_sample ''no'' (BATMAN_CHARGING batman_sample))
      (binder_devmon_ds_start_io batman_sample
         (ds_sample False MCE_CHARGER_ON MCE_DISPLAY_STATE_OFF)
         client_sample slot_sample no_watch)))) = [30000, 2000] \<and>
   \<not> low_data (binder_devmon_ds_io_update_low_data
      (binder_devmon_ds_start_io batman_sample
         (ds_sample True MCE_CHARGER_OFF MCE_DISPLAY_STATE_OFF)
         client_sample slot_sample no_watch)) \<and>
   low_data (snd (handle_batman_inotify_events_ds batman_sample True
      (io_sample ''no'' (BATMAN_DISCHARGING batman_sample))
      (binder_devmon_ds_start_io batman_sample
         (ds_sample True MCE_CHARGER_OFF MCE_DISPLAY_STATE_OFF)
         client_sample slot_sample no_watch)))"
  by (simp add: sample_defs ds_source_defs env_defs batman_read_screen_yes)

end
